theory Spec2Isabelle
  imports Main "HOL-Library.Word" "HOL-Library.Sublist"
begin

section \<open>Data model of gpu\_info\_cuda.h\<close>

text \<open>
  C \<open>int\<close>, \<open>unsigned int\<close> and the enum-typed status codes are 32-bit words; the order
  \<open><\<close> on words is the unsigned comparison, \<open><s\<close> the signed one. A library
  reference (\<open>void *\<close> from the loader) and a function address are natural numbers
  when non-null; a pointer that may be null is an \<open>option\<close>.
\<close>

type_synonym cint = "32 word"

type_synonym lib = nat

type_synonym addr = nat

type_synonym nvmlDevice = nat

definition NVML_SUCCESS :: cint where
  "NVML_SUCCESS = 0"

definition CUDART_SUCCESS :: cint where
  "CUDART_SUCCESS = 0"

datatype cudaLibraryType = LIBUNKNOWN | LIBCUDART | LIBNVIDIAML

fun lib_t_code :: "cudaLibraryType \<Rightarrow> cint" where
  "lib_t_code LIBUNKNOWN = 0"
| "lib_t_code LIBCUDART = 1"
| "lib_t_code LIBNVIDIAML = 2"

definition cudaDevAttrComputeCapabilityMajor :: cint where
  "cudaDevAttrComputeCapabilityMajor = 75"

definition cudaDevAttrComputeCapabilityMinor :: cint where
  "cudaDevAttrComputeCapabilityMinor = 76"

record nvmlMemory =
  nvml_total :: "64 word"
  nvml_free :: "64 word"
  nvml_used :: "64 word"

record cuda_handle =
  handle :: "lib option"
  verbose :: "16 word"
  lib_t :: cudaLibraryType
  nvmlInit_v2 :: "addr option"
  nvmlShutdown :: "addr option"
  nvmlDeviceGetHandleByIndex :: "addr option"
  nvmlDeviceGetMemoryInfo :: "addr option"
  nvmlDeviceGetCount_v2 :: "addr option"
  nvmlDeviceGetCudaComputeCapability :: "addr option"
  nvmlSystemGetDriverVersion :: "addr option"
  nvmlDeviceGetName :: "addr option"
  nvmlDeviceGetSerial :: "addr option"
  nvmlDeviceGetVbiosVersion :: "addr option"
  nvmlDeviceGetBoardPartNumber :: "addr option"
  nvmlDeviceGetBrand :: "addr option"
  cudaSetDevice :: "addr option"
  cudaDeviceReset :: "addr option"
  cudaMemGetInfo :: "addr option"
  cudaGetDeviceCount :: "addr option"
  cudaDeviceGetAttribute :: "addr option"
  cudaDriverGetVersion :: "addr option"

record cuda_init_resp =
  ir_err :: "string option"
  ir_ch :: cuda_handle

record cuda_compute_capability_t =
  cc_err :: "string option"
  cc_major :: cint
  cc_minor :: cint

text \<open>
  Modelled from the spec: \<open>mem_info_t\<close> is declared in gpu\_info.h, which is not among
  the sources. The spec's aggregate memory result is
  \<open>{device_count, total_memory, free_memory, error}\<close> with unsigned 64-bit byte counts;
  the count is taken as \<open>unsigned int\<close>, the type \<open>nvmlDeviceGetCount_v2\<close> writes.
\<close>

record mem_info =
  mi_total :: "64 word"
  mi_free :: "64 word"
  mi_count :: cint
  mi_err :: "string option"

section \<open>Formatting\<close>

text \<open>
  \<open>snprintf(buf, buflen, ...)\<close> keeps at most \<open>buflen - 1\<close> characters of the formatted
  text; \<open>%d\<close> prints a signed decimal. \<open>strdup\<close> is taken to succeed, so an error
  string that was built is \<open>Some\<close> of its text.
\<close>

definition buflen :: nat where
  "buflen = 256"

definition snprintf :: "nat \<Rightarrow> string \<Rightarrow> string" where
  "snprintf n text = take (n - 1) text"

definition digit_char :: "nat \<Rightarrow> char" where
  "digit_char d = char_of (48 + d)"

function show_nat :: "nat \<Rightarrow> string" where
  "show_nat n = (if n < 10 then [digit_char n] else show_nat (n div 10) @ [digit_char (n mod 10)])"
  by pat_completeness auto
termination
  by (relation "measure id") auto

definition show_int :: "int \<Rightarrow> string" where
  "show_int k = (if k < 0 then CHR ''-'' # show_nat (nat (- k)) else show_nat (nat k))"

definition fmt_d :: "cint \<Rightarrow> string" where
  "fmt_d v = show_int (sint v)"

section \<open>The external collaborators\<close>

text \<open>
  The dynamic loader and the code behind the resolved addresses are parameters of the
  model. Each is a transformer of an abstract world \<open>'w\<close>; an entry point is given the
  address it is called through, and its out-parameters are part of what it returns.
  \<open>LOAD_LIBRARY\<close>, \<open>LOAD_ERR\<close>, \<open>LOAD_SYMBOL\<close> and \<open>UNLOAD_LIBRARY\<close> are macros of
  gpu\_info.h; \<open>LOG\<close>, also from there, only prints and is left out.
\<close>

record 'w env =
  LOAD_LIBRARY :: "string \<Rightarrow> 'w \<Rightarrow> lib option \<times> 'w"
  LOAD_ERR :: "'w \<Rightarrow> string \<times> 'w"
  LOAD_SYMBOL :: "lib option \<Rightarrow> string \<Rightarrow> 'w \<Rightarrow> addr option \<times> 'w"
  UNLOAD_LIBRARY :: "lib option \<Rightarrow> 'w \<Rightarrow> 'w"
  fn_nvmlInit_v2 :: "addr \<Rightarrow> 'w \<Rightarrow> cint \<times> 'w"
  fn_nvmlDeviceGetHandleByIndex :: "addr \<Rightarrow> cint \<Rightarrow> 'w \<Rightarrow> (cint \<times> nvmlDevice) \<times> 'w"
  fn_nvmlDeviceGetMemoryInfo :: "addr \<Rightarrow> nvmlDevice \<Rightarrow> 'w \<Rightarrow> (cint \<times> nvmlMemory) \<times> 'w"
  fn_nvmlDeviceGetCount_v2 :: "addr \<Rightarrow> 'w \<Rightarrow> (cint \<times> cint) \<times> 'w"
  fn_nvmlDeviceGetCudaComputeCapability ::
    "addr \<Rightarrow> nvmlDevice \<Rightarrow> 'w \<Rightarrow> (cint \<times> cint \<times> cint) \<times> 'w"
  fn_nvmlSystemGetDriverVersion :: "addr \<Rightarrow> nat \<Rightarrow> 'w \<Rightarrow> (cint \<times> string) \<times> 'w"
  fn_nvmlDeviceText :: "addr \<Rightarrow> nvmlDevice \<Rightarrow> nat \<Rightarrow> 'w \<Rightarrow> (cint \<times> string) \<times> 'w"
  fn_nvmlDeviceGetBrand :: "addr \<Rightarrow> nvmlDevice \<Rightarrow> 'w \<Rightarrow> (cint \<times> cint) \<times> 'w"
  fn_cudaSetDevice :: "addr \<Rightarrow> cint \<Rightarrow> 'w \<Rightarrow> cint \<times> 'w"
  fn_cudaMemGetInfo :: "addr \<Rightarrow> 'w \<Rightarrow> (cint \<times> 64 word \<times> 64 word) \<times> 'w"
  fn_cudaGetDeviceCount :: "addr \<Rightarrow> 'w \<Rightarrow> (cint \<times> cint) \<times> 'w"
  fn_cudaDeviceGetAttribute :: "addr \<Rightarrow> cint \<Rightarrow> cint \<Rightarrow> 'w \<Rightarrow> (cint \<times> cint) \<times> 'w"
  fn_cudaDriverGetVersion :: "addr \<Rightarrow> 'w \<Rightarrow> (cint \<times> cint) \<times> 'w"

text \<open>
  Every interaction with the loader or with an entry point is recorded, with what it
  returned, in a trace; the four text queries of the verbose block share one signature
  and one event.
\<close>

datatype event =
    E_LOAD_LIBRARY string "lib option"
  | E_LOAD_ERR string
  | E_LOAD_SYMBOL "lib option" string "addr option"
  | E_UNLOAD_LIBRARY "lib option"
  | E_nvmlInit_v2 addr cint
  | E_nvmlDeviceGetHandleByIndex addr cint cint nvmlDevice
  | E_nvmlDeviceGetMemoryInfo addr nvmlDevice cint nvmlMemory
  | E_nvmlDeviceGetCount_v2 addr cint cint
  | E_nvmlDeviceGetCudaComputeCapability addr nvmlDevice cint cint cint
  | E_nvmlSystemGetDriverVersion addr cint
  | E_nvmlDeviceText addr nvmlDevice cint
  | E_nvmlDeviceGetBrand addr nvmlDevice cint
  | E_cudaSetDevice addr cint cint
  | E_cudaMemGetInfo addr cint "64 word" "64 word"
  | E_cudaGetDeviceCount addr cint cint
  | E_cudaDeviceGetAttribute addr cint cint cint cint
  | E_cudaDriverGetVersion addr cint cint

record 'w sys =
  world :: 'w
  trace :: "event list"

definition emit :: "'w \<Rightarrow> event \<Rightarrow> 'w sys \<Rightarrow> 'w sys" where
  "emit w e s = \<lparr>world = w, trace = trace s @ [e]\<rparr>"

subsection \<open>The loader\<close>

definition do_LOAD_LIBRARY :: "'w env \<Rightarrow> string \<Rightarrow> 'w sys \<Rightarrow> lib option \<times> 'w sys" where
  "do_LOAD_LIBRARY env path s =
     (case LOAD_LIBRARY env path (world s) of
        (h, w) \<Rightarrow> (h, emit w (E_LOAD_LIBRARY path h) s))"

definition do_LOAD_ERR :: "'w env \<Rightarrow> 'w sys \<Rightarrow> string \<times> 'w sys" where
  "do_LOAD_ERR env s =
     (case LOAD_ERR env (world s) of
        (msg, w) \<Rightarrow> (msg, emit w (E_LOAD_ERR msg) s))"

definition do_LOAD_SYMBOL ::
  "'w env \<Rightarrow> lib option \<Rightarrow> string \<Rightarrow> 'w sys \<Rightarrow> addr option \<times> 'w sys" where
  "do_LOAD_SYMBOL env h name s =
     (case LOAD_SYMBOL env h name (world s) of
        (a, w) \<Rightarrow> (a, emit w (E_LOAD_SYMBOL h name a) s))"

definition do_UNLOAD_LIBRARY :: "'w env \<Rightarrow> lib option \<Rightarrow> 'w sys \<Rightarrow> 'w sys" where
  "do_UNLOAD_LIBRARY env h s = emit (UNLOAD_LIBRARY env h (world s)) (E_UNLOAD_LIBRARY h) s"

subsection \<open>Calls through the slots of the handle\<close>

text \<open>
  A call through a slot that holds the null pointer has no defined result: the model
  returns \<open>None\<close> for it, and for everything that would follow.
\<close>

definition call_nvmlInit_v2 :: "'w env \<Rightarrow> addr option \<Rightarrow> 'w sys \<Rightarrow> (cint \<times> 'w sys) option" where
  "call_nvmlInit_v2 env slot s =
     (case slot of
        None \<Rightarrow> None
      | Some a \<Rightarrow>
          (case fn_nvmlInit_v2 env a (world s) of
             (ret, w) \<Rightarrow> Some (ret, emit w (E_nvmlInit_v2 a ret) s)))"

definition call_nvmlDeviceGetHandleByIndex ::
  "'w env \<Rightarrow> addr option \<Rightarrow> cint \<Rightarrow> 'w sys \<Rightarrow> ((cint \<times> nvmlDevice) \<times> 'w sys) option" where
  "call_nvmlDeviceGetHandleByIndex env slot i s =
     (case slot of
        None \<Rightarrow> None
      | Some a \<Rightarrow>
          (case fn_nvmlDeviceGetHandleByIndex env a i (world s) of
             ((ret, device), w) \<Rightarrow>
               Some ((ret, device), emit w (E_nvmlDeviceGetHandleByIndex a i ret device) s)))"

definition call_nvmlDeviceGetMemoryInfo ::
  "'w env \<Rightarrow> addr option \<Rightarrow> nvmlDevice \<Rightarrow> 'w sys \<Rightarrow> ((cint \<times> nvmlMemory) \<times> 'w sys) option" where
  "call_nvmlDeviceGetMemoryInfo env slot device s =
     (case slot of
        None \<Rightarrow> None
      | Some a \<Rightarrow>
          (case fn_nvmlDeviceGetMemoryInfo env a device (world s) of
             ((ret, m), w) \<Rightarrow>
               Some ((ret, m), emit w (E_nvmlDeviceGetMemoryInfo a device ret m) s)))"

definition call_nvmlDeviceGetCount_v2 ::
  "'w env \<Rightarrow> addr option \<Rightarrow> 'w sys \<Rightarrow> ((cint \<times> cint) \<times> 'w sys) option" where
  "call_nvmlDeviceGetCount_v2 env slot s =
     (case slot of
        None \<Rightarrow> None
      | Some a \<Rightarrow>
          (case fn_nvmlDeviceGetCount_v2 env a (world s) of
             ((ret, n), w) \<Rightarrow> Some ((ret, n), emit w (E_nvmlDeviceGetCount_v2 a ret n) s)))"

definition call_nvmlDeviceGetCudaComputeCapability ::
  "'w env \<Rightarrow> addr option \<Rightarrow> nvmlDevice \<Rightarrow> 'w sys \<Rightarrow> ((cint \<times> cint \<times> cint) \<times> 'w sys) option" where
  "call_nvmlDeviceGetCudaComputeCapability env slot device s =
     (case slot of
        None \<Rightarrow> None
      | Some a \<Rightarrow>
          (case fn_nvmlDeviceGetCudaComputeCapability env a device (world s) of
             ((ret, major, minor), w) \<Rightarrow>
               Some ((ret, major, minor),
                     emit w (E_nvmlDeviceGetCudaComputeCapability a device ret major minor) s)))"

definition call_nvmlSystemGetDriverVersion ::
  "'w env \<Rightarrow> addr option \<Rightarrow> nat \<Rightarrow> 'w sys \<Rightarrow> (cint \<times> 'w sys) option" where
  "call_nvmlSystemGetDriverVersion env slot len s =
     (case slot of
        None \<Rightarrow> None
      | Some a \<Rightarrow>
          (case fn_nvmlSystemGetDriverVersion env a len (world s) of
             ((ret, text), w) \<Rightarrow> Some (ret, emit w (E_nvmlSystemGetDriverVersion a ret) s)))"

definition call_nvmlDeviceText ::
  "'w env \<Rightarrow> addr option \<Rightarrow> nvmlDevice \<Rightarrow> nat \<Rightarrow> 'w sys \<Rightarrow> (cint \<times> 'w sys) option" where
  "call_nvmlDeviceText env slot device len s =
     (case slot of
        None \<Rightarrow> None
      | Some a \<Rightarrow>
          (case fn_nvmlDeviceText env a device len (world s) of
             ((ret, text), w) \<Rightarrow> Some (ret, emit w (E_nvmlDeviceText a device ret) s)))"

definition call_nvmlDeviceGetBrand ::
  "'w env \<Rightarrow> addr option \<Rightarrow> nvmlDevice \<Rightarrow> 'w sys \<Rightarrow> (cint \<times> 'w sys) option" where
  "call_nvmlDeviceGetBrand env slot device s =
     (case slot of
        None \<Rightarrow> None
      | Some a \<Rightarrow>
          (case fn_nvmlDeviceGetBrand env a device (world s) of
             ((ret, brand), w) \<Rightarrow> Some (ret, emit w (E_nvmlDeviceGetBrand a device ret) s)))"

definition call_cudaSetDevice ::
  "'w env \<Rightarrow> addr option \<Rightarrow> cint \<Rightarrow> 'w sys \<Rightarrow> (cint \<times> 'w sys) option" where
  "call_cudaSetDevice env slot device s =
     (case slot of
        None \<Rightarrow> None
      | Some a \<Rightarrow>
          (case fn_cudaSetDevice env a device (world s) of
             (ret, w) \<Rightarrow> Some (ret, emit w (E_cudaSetDevice a device ret) s)))"

definition call_cudaMemGetInfo ::
  "'w env \<Rightarrow> addr option \<Rightarrow> 'w sys \<Rightarrow> ((cint \<times> 64 word \<times> 64 word) \<times> 'w sys) option" where
  "call_cudaMemGetInfo env slot s =
     (case slot of
        None \<Rightarrow> None
      | Some a \<Rightarrow>
          (case fn_cudaMemGetInfo env a (world s) of
             ((ret, free_b, total_b), w) \<Rightarrow>
               Some ((ret, free_b, total_b), emit w (E_cudaMemGetInfo a ret free_b total_b) s)))"

definition call_cudaGetDeviceCount ::
  "'w env \<Rightarrow> addr option \<Rightarrow> 'w sys \<Rightarrow> ((cint \<times> cint) \<times> 'w sys) option" where
  "call_cudaGetDeviceCount env slot s =
     (case slot of
        None \<Rightarrow> None
      | Some a \<Rightarrow>
          (case fn_cudaGetDeviceCount env a (world s) of
             ((ret, n), w) \<Rightarrow> Some ((ret, n), emit w (E_cudaGetDeviceCount a ret n) s)))"

definition call_cudaDeviceGetAttribute ::
  "'w env \<Rightarrow> addr option \<Rightarrow> cint \<Rightarrow> cint \<Rightarrow> 'w sys \<Rightarrow> ((cint \<times> cint) \<times> 'w sys) option" where
  "call_cudaDeviceGetAttribute env slot attr device s =
     (case slot of
        None \<Rightarrow> None
      | Some a \<Rightarrow>
          (case fn_cudaDeviceGetAttribute env a attr device (world s) of
             ((ret, v), w) \<Rightarrow>
               Some ((ret, v), emit w (E_cudaDeviceGetAttribute a attr device ret v) s)))"

definition call_cudaDriverGetVersion ::
  "'w env \<Rightarrow> addr option \<Rightarrow> 'w sys \<Rightarrow> ((cint \<times> cint) \<times> 'w sys) option" where
  "call_cudaDriverGetVersion env slot s =
     (case slot of
        None \<Rightarrow> None
      | Some a \<Rightarrow>
          (case fn_cudaDriverGetVersion env a (world s) of
             ((ret, v), w) \<Rightarrow> Some ((ret, v), emit w (E_cudaDriverGetVersion a ret v) s)))"

section \<open>Loop counters\<close>

text \<open>
  \<open>i++\<close> on the loop counter does not wrap while the loop condition holds, unsigned
  or signed.
\<close>

lemma word_inc_unat: "(i::cint) < n \<Longrightarrow> unat (i + 1) = Suc (unat i)"
proof -
  assume "i < n"
  then have "unat i < unat n"
    by (simp add: word_less_nat_alt)
  moreover have "unat n < 2 ^ 32"
    using unsigned_less [of n] by simp
  ultimately have "unat i + 1 < 2 ^ 32"
    by simp
  then show ?thesis
    by (simp add: unat_word_ariths)
qed

lemma word_inc_sint: "(i::cint) <s n \<Longrightarrow> sint (i + 1) = sint i + 1"
proof -
  assume a: "i <s n"
  have lt: "sint i < sint n"
    using a by (simp add: word_sless_alt)
  have up: "sint n \<le> 2 ^ 31 - 1"
    using sint_lt [of n] by simp
  have lo: "- (2 ^ 31) \<le> sint i"
    using sint_ge [of i] by simp
  show "sint (i + 1) = sint i + 1"
    using lt up lo by (simp add: sint_word_ariths signed_take_bit_int_eq_self)
qed

section \<open>cuda\_compute\_capability\<close>

text \<open>
  The comparison each device loop makes after a reading (lines 304-309 and 343-348 of
  gpu\_info\_cuda.c): keep the lowest major.minor seen.
\<close>

definition cc_update :: "cuda_compute_capability_t \<Rightarrow> cint \<Rightarrow> cint \<Rightarrow> cuda_compute_capability_t" where
  "cc_update resp major minor =
     (if cc_major resp = 0 \<or> major <s cc_major resp then
        resp\<lparr>cc_major := major, cc_minor := minor\<rparr>
      else if cc_major resp = major \<and> minor <s cc_minor resp then
        resp\<lparr>cc_minor := minor\<rparr>
      else resp)"

text \<open>
  The loop of case \<open>LIBNVIDIAML\<close>: \<open>unsigned int devices\<close>, so \<open>i < devices\<close> is the
  unsigned comparison. The counter \<open>int i\<close> is a 32-bit word throughout: it is passed as
  it is where an \<open>unsigned int\<close> index is expected and printed signed by \<open>%d\<close>.
\<close>

function cc_nvml_loop ::
  "'w env \<Rightarrow> cuda_handle \<Rightarrow> cint \<Rightarrow> cint \<Rightarrow> cuda_compute_capability_t \<Rightarrow> 'w sys
    \<Rightarrow> (cuda_compute_capability_t \<times> 'w sys) option" where
  "cc_nvml_loop env h devices i resp s =
     (if i < devices then
        (case call_nvmlDeviceGetHandleByIndex env (nvmlDeviceGetHandleByIndex h) i s of
           None \<Rightarrow> None
         | Some ((nvml_ret, device), s1) \<Rightarrow>
             if nvml_ret \<noteq> NVML_SUCCESS then
               Some (resp\<lparr>cc_err := Some (snprintf buflen
                 (''unable to get device handle '' @ fmt_d i @ '': '' @ fmt_d nvml_ret))\<rparr>, s1)
             else
               (case call_nvmlDeviceGetCudaComputeCapability env
                       (nvmlDeviceGetCudaComputeCapability h) device s1 of
                  None \<Rightarrow> None
                | Some ((nvml_ret, major, minor), s2) \<Rightarrow>
                    if nvml_ret \<noteq> NVML_SUCCESS then
                      Some (resp\<lparr>cc_err := Some (snprintf buflen
                        (''device compute capability lookup failure '' @ fmt_d i @ '': ''
                           @ fmt_d nvml_ret))\<rparr>, s2)
                    else cc_nvml_loop env h devices (i + 1) (cc_update resp major minor) s2))
      else Some (resp, s))"
  by pat_completeness auto
termination
  by (relation "measure (\<lambda>(env, h, devices, i, resp, s). unat devices - unat i)")
     (auto simp: word_inc_unat word_less_nat_alt)

text \<open>The loop of case \<open>LIBCUDART\<close>: \<open>int devices\<close>, so \<open>i < devices\<close> is signed.\<close>

function cc_cudart_loop ::
  "'w env \<Rightarrow> cuda_handle \<Rightarrow> cint \<Rightarrow> cint \<Rightarrow> cuda_compute_capability_t \<Rightarrow> 'w sys
    \<Rightarrow> (cuda_compute_capability_t \<times> 'w sys) option" where
  "cc_cudart_loop env h devices i resp s =
     (if i <s devices then
        (case call_cudaSetDevice env (cudaSetDevice h) i s of
           None \<Rightarrow> None
         | Some (cudart_ret, s1) \<Rightarrow>
             if cudart_ret \<noteq> CUDART_SUCCESS then
               Some (resp\<lparr>cc_err := Some (snprintf buflen
                 (''unable to get device handle '' @ fmt_d i @ '': '' @ fmt_d cudart_ret))\<rparr>, s1)
             else
               (case call_cudaDeviceGetAttribute env (cudaDeviceGetAttribute h)
                       cudaDevAttrComputeCapabilityMajor i s1 of
                  None \<Rightarrow> None
                | Some ((cudart_ret, major), s2) \<Rightarrow>
                    if cudart_ret \<noteq> CUDART_SUCCESS then
                      Some (resp\<lparr>cc_err := Some (snprintf buflen
                        (''device compute capability lookup failure '' @ fmt_d i @ '': ''
                           @ fmt_d cudart_ret))\<rparr>, s2)
                    else
                      (case call_cudaDeviceGetAttribute env (cudaDeviceGetAttribute h)
                              cudaDevAttrComputeCapabilityMinor i s2 of
                         None \<Rightarrow> None
                       | Some ((cudart_ret, minor), s3) \<Rightarrow>
                           if cudart_ret \<noteq> CUDART_SUCCESS then
                             Some (resp\<lparr>cc_err := Some (snprintf buflen
                               (''device compute capability lookup failure '' @ fmt_d i @ '': ''
                                  @ fmt_d cudart_ret))\<rparr>, s3)
                           else
                             cc_cudart_loop env h devices (i + 1) (cc_update resp major minor) s3)))
      else Some (resp, s))"
  by pat_completeness auto
termination
  by (relation "measure (\<lambda>(env, h, devices, i, resp, s). nat (sint devices - sint i))")
     (auto simp: word_inc_sint word_sless_alt)

text \<open>
  \<open>cuda_compute_capability\<close>. The switch has the cases \<open>LIBNVIDIAML\<close>, \<open>LIBCUDART\<close> and
  \<open>default\<close>; the only other value of the enum is \<open>LIBUNKNOWN\<close>.
\<close>

definition cuda_compute_capability ::
  "'w env \<Rightarrow> cuda_handle \<Rightarrow> cuda_compute_capability_t \<Rightarrow> 'w sys
    \<Rightarrow> (cuda_compute_capability_t \<times> 'w sys) option" where
  "cuda_compute_capability env h resp0 s =
     (let resp = resp0\<lparr>cc_err := None, cc_major := 0, cc_minor := 0\<rparr> in
      if handle h = None then
        Some (resp\<lparr>cc_err := Some ''cuda handle not initialized''\<rparr>, s)
      else
        (case lib_t h of
           LIBNVIDIAML \<Rightarrow>
             (case call_nvmlDeviceGetCount_v2 env (nvmlDeviceGetCount_v2 h) s of
                None \<Rightarrow> None
              | Some ((nvml_ret, devices), s1) \<Rightarrow>
                  if nvml_ret \<noteq> NVML_SUCCESS then
                    Some (resp\<lparr>cc_err := Some (snprintf buflen
                      (''unable to get device count: '' @ fmt_d nvml_ret))\<rparr>, s1)
                  else cc_nvml_loop env h devices 0 resp s1)
         | LIBCUDART \<Rightarrow>
             (case call_cudaGetDeviceCount env (cudaGetDeviceCount h) s of
                None \<Rightarrow> None
              | Some ((cudart_ret, devices), s1) \<Rightarrow>
                  if cudart_ret \<noteq> CUDART_SUCCESS then
                    Some (resp\<lparr>cc_err := Some (snprintf buflen
                      (''unable to get tegra device count: '' @ fmt_d cudart_ret))\<rparr>, s1)
                  else cc_cudart_loop env h devices 0 resp s1)
         | LIBUNKNOWN \<Rightarrow>
             Some (resp\<lparr>cc_err := Some (snprintf buflen
               (''error detecting loaded library: '' @ fmt_d (lib_t_code (lib_t h))))\<rparr>, s)))"

section \<open>cuda\_check\_vram\<close>

text \<open>
  The loop of case \<open>LIBCUDART\<close>. \<open>cudaMemGetInfo\<close> takes the address of the free
  field first and of the total field second, as \<open>size_t *\<close>, 64 bits wide like the
  fields. \<open>resp->count\<close> is unsigned, so \<open>i < resp->count\<close> is the unsigned comparison.
\<close>

function vram_cudart_loop ::
  "'w env \<Rightarrow> cuda_handle \<Rightarrow> cint \<Rightarrow> mem_info \<Rightarrow> 'w sys \<Rightarrow> (mem_info \<times> 'w sys) option" where
  "vram_cudart_loop env h i resp s =
     (if i < mi_count resp then
        (case call_cudaSetDevice env (cudaSetDevice h) i s of
           None \<Rightarrow> None
         | Some (cudart_ret, s1) \<Rightarrow>
             if cudart_ret \<noteq> CUDART_SUCCESS then
               Some (resp\<lparr>mi_err := Some (snprintf buflen
                 (''unable to get device handle '' @ fmt_d i @ '': '' @ fmt_d cudart_ret))\<rparr>, s1)
             else
               (case call_cudaMemGetInfo env (cudaMemGetInfo h) s1 of
                  None \<Rightarrow> None
                | Some ((cudart_ret, free_b, total_b), s2) \<Rightarrow>
                    if cudart_ret \<noteq> CUDART_SUCCESS then
                      Some (resp\<lparr>mi_err := Some (snprintf buflen
                        (''device memory info lookup failure '' @ fmt_d i @ '': ''
                           @ fmt_d cudart_ret))\<rparr>, s2)
                    else
                      vram_cudart_loop env h (i + 1)
                        (resp\<lparr>mi_total := mi_total resp + total_b,
                              mi_free := mi_free resp + free_b\<rparr>) s2))
      else Some (resp, s))"
  by pat_completeness auto
termination
  by (relation "measure (\<lambda>(env, h, i, resp, s). unat (mi_count resp) - unat i)")
     (auto simp: word_inc_unat word_less_nat_alt)

text \<open>
  The block under \<open>if (h.verbose)\<close>: five more queries of the device whose status is
  only logged.
\<close>

definition vram_nvml_verbose ::
  "'w env \<Rightarrow> cuda_handle \<Rightarrow> nvmlDevice \<Rightarrow> 'w sys \<Rightarrow> 'w sys option" where
  "vram_nvml_verbose env h device s =
     (case call_nvmlDeviceText env (nvmlDeviceGetName h) device buflen s of
        None \<Rightarrow> None
      | Some (ret1, s1) \<Rightarrow>
     (case call_nvmlDeviceText env (nvmlDeviceGetBoardPartNumber h) device buflen s1 of
        None \<Rightarrow> None
      | Some (ret2, s2) \<Rightarrow>
     (case call_nvmlDeviceText env (nvmlDeviceGetSerial h) device buflen s2 of
        None \<Rightarrow> None
      | Some (ret3, s3) \<Rightarrow>
     (case call_nvmlDeviceText env (nvmlDeviceGetVbiosVersion h) device buflen s3 of
        None \<Rightarrow> None
      | Some (ret4, s4) \<Rightarrow>
     (case call_nvmlDeviceGetBrand env (nvmlDeviceGetBrand h) device s4 of
        None \<Rightarrow> None
      | Some (ret5, s5) \<Rightarrow> Some s5)))))"

text \<open>The loop of case \<open>LIBNVIDIAML\<close>.\<close>

function vram_nvml_loop ::
  "'w env \<Rightarrow> cuda_handle \<Rightarrow> cint \<Rightarrow> mem_info \<Rightarrow> 'w sys \<Rightarrow> (mem_info \<times> 'w sys) option" where
  "vram_nvml_loop env h i resp s =
     (if i < mi_count resp then
        (case call_nvmlDeviceGetHandleByIndex env (nvmlDeviceGetHandleByIndex h) i s of
           None \<Rightarrow> None
         | Some ((nvml_ret, device), s1) \<Rightarrow>
             if nvml_ret \<noteq> NVML_SUCCESS then
               Some (resp\<lparr>mi_err := Some (snprintf buflen
                 (''unable to get device handle '' @ fmt_d i @ '': '' @ fmt_d nvml_ret))\<rparr>, s1)
             else
               (case call_nvmlDeviceGetMemoryInfo env (nvmlDeviceGetMemoryInfo h) device s1 of
                  None \<Rightarrow> None
                | Some ((nvml_ret, nvml_memInfo), s2) \<Rightarrow>
                    if nvml_ret \<noteq> NVML_SUCCESS then
                      Some (resp\<lparr>mi_err := Some (snprintf buflen
                        (''device memory info lookup failure '' @ fmt_d i @ '': ''
                           @ fmt_d nvml_ret))\<rparr>, s2)
                    else
                      (case (if verbose h \<noteq> 0 then vram_nvml_verbose env h device s2
                             else Some s2) of
                         None \<Rightarrow> None
                       | Some s3 \<Rightarrow>
                           vram_nvml_loop env h (i + 1)
                             (resp\<lparr>mi_total := mi_total resp + nvml_total nvml_memInfo,
                                   mi_free := mi_free resp + nvml_free nvml_memInfo\<rparr>) s3)))
      else Some (resp, s))"
  by pat_completeness auto
termination
  by (relation "measure (\<lambda>(env, h, i, resp, s). unat (mi_count resp) - unat i)")
     (auto simp: word_inc_unat word_less_nat_alt)

text \<open>
  \<open>cuda_check_vram\<close>. Both count queries are handed the address of \<open>resp->count\<close>, so
  what they report is stored there whatever the status.
\<close>

definition cuda_check_vram ::
  "'w env \<Rightarrow> cuda_handle \<Rightarrow> mem_info \<Rightarrow> 'w sys \<Rightarrow> (mem_info \<times> 'w sys) option" where
  "cuda_check_vram env h resp0 s =
     (let resp = resp0\<lparr>mi_err := None\<rparr> in
      if handle h = None then
        Some (resp\<lparr>mi_err := Some (''cuda and nvml handle isn'' @ [CHR 0x27]
                                      @ ''t initialized'')\<rparr>, s)
      else
        (case lib_t h of
           LIBCUDART \<Rightarrow>
             (case call_cudaGetDeviceCount env (cudaGetDeviceCount h) s of
                None \<Rightarrow> None
              | Some ((cudart_ret, n), s1) \<Rightarrow>
                  if cudart_ret \<noteq> CUDART_SUCCESS then
                    Some (resp\<lparr>mi_count := n, mi_err := Some (snprintf buflen
                      (''unable to get device count: '' @ fmt_d cudart_ret))\<rparr>, s1)
                  else
                    vram_cudart_loop env h 0
                      (resp\<lparr>mi_count := n, mi_total := 0, mi_free := 0\<rparr>) s1)
         | LIBNVIDIAML \<Rightarrow>
             (case call_nvmlDeviceGetCount_v2 env (nvmlDeviceGetCount_v2 h) s of
                None \<Rightarrow> None
              | Some ((nvml_ret, n), s1) \<Rightarrow>
                  if nvml_ret \<noteq> NVML_SUCCESS then
                    Some (resp\<lparr>mi_count := n, mi_err := Some (snprintf buflen
                      (''unable to get device count: '' @ fmt_d nvml_ret))\<rparr>, s1)
                  else
                    vram_nvml_loop env h 0
                      (resp\<lparr>mi_count := n, mi_total := 0, mi_free := 0\<rparr>) s1)
         | LIBUNKNOWN \<Rightarrow>
             Some (resp\<lparr>mi_err := Some (snprintf buflen
               (''error detecting loaded library: '' @ fmt_d (lib_t_code (lib_t h))))\<rparr>, s)))"

section \<open>cuda\_init\<close>

text \<open>
  The lookup table \<open>l[]\<close> pairs a symbol name with the address of the slot of
  \<open>resp->ch\<close> that receives it. The address of a slot is a \<open>slot\<close>; a \<open>void **\<close>
  that may be null is a \<open>slot option\<close>. The \<open>{NULL, NULL}\<close> entry that ends the
  array is the end of the list.
\<close>

datatype slot =
    P_nvmlInit_v2
  | P_nvmlShutdown
  | P_nvmlDeviceGetHandleByIndex
  | P_nvmlDeviceGetMemoryInfo
  | P_nvmlDeviceGetCount_v2
  | P_nvmlDeviceGetCudaComputeCapability
  | P_nvmlSystemGetDriverVersion
  | P_nvmlDeviceGetName
  | P_nvmlDeviceGetSerial
  | P_nvmlDeviceGetVbiosVersion
  | P_nvmlDeviceGetBoardPartNumber
  | P_nvmlDeviceGetBrand
  | P_cudaSetDevice
  | P_cudaDeviceReset
  | P_cudaMemGetInfo
  | P_cudaGetDeviceCount
  | P_cudaDeviceGetAttribute
  | P_cudaDriverGetVersion

fun store_slot :: "slot \<Rightarrow> addr option \<Rightarrow> cuda_handle \<Rightarrow> cuda_handle" where
  "store_slot P_nvmlInit_v2 a ch = ch\<lparr>nvmlInit_v2 := a\<rparr>"
| "store_slot P_nvmlShutdown a ch = ch\<lparr>nvmlShutdown := a\<rparr>"
| "store_slot P_nvmlDeviceGetHandleByIndex a ch = ch\<lparr>nvmlDeviceGetHandleByIndex := a\<rparr>"
| "store_slot P_nvmlDeviceGetMemoryInfo a ch = ch\<lparr>nvmlDeviceGetMemoryInfo := a\<rparr>"
| "store_slot P_nvmlDeviceGetCount_v2 a ch = ch\<lparr>nvmlDeviceGetCount_v2 := a\<rparr>"
| "store_slot P_nvmlDeviceGetCudaComputeCapability a ch =
     ch\<lparr>nvmlDeviceGetCudaComputeCapability := a\<rparr>"
| "store_slot P_nvmlSystemGetDriverVersion a ch = ch\<lparr>nvmlSystemGetDriverVersion := a\<rparr>"
| "store_slot P_nvmlDeviceGetName a ch = ch\<lparr>nvmlDeviceGetName := a\<rparr>"
| "store_slot P_nvmlDeviceGetSerial a ch = ch\<lparr>nvmlDeviceGetSerial := a\<rparr>"
| "store_slot P_nvmlDeviceGetVbiosVersion a ch = ch\<lparr>nvmlDeviceGetVbiosVersion := a\<rparr>"
| "store_slot P_nvmlDeviceGetBoardPartNumber a ch = ch\<lparr>nvmlDeviceGetBoardPartNumber := a\<rparr>"
| "store_slot P_nvmlDeviceGetBrand a ch = ch\<lparr>nvmlDeviceGetBrand := a\<rparr>"
| "store_slot P_cudaSetDevice a ch = ch\<lparr>cudaSetDevice := a\<rparr>"
| "store_slot P_cudaDeviceReset a ch = ch\<lparr>cudaDeviceReset := a\<rparr>"
| "store_slot P_cudaMemGetInfo a ch = ch\<lparr>cudaMemGetInfo := a\<rparr>"
| "store_slot P_cudaGetDeviceCount a ch = ch\<lparr>cudaGetDeviceCount := a\<rparr>"
| "store_slot P_cudaDeviceGetAttribute a ch = ch\<lparr>cudaDeviceGetAttribute := a\<rparr>"
| "store_slot P_cudaDriverGetVersion a ch = ch\<lparr>cudaDriverGetVersion := a\<rparr>"

definition lookup_tbl :: "(string \<times> slot option) list" where
  "lookup_tbl =
     [(''nvmlInit_v2'', Some P_nvmlInit_v2),
      (''nvmlShutdown'', Some P_nvmlShutdown),
      (''nvmlDeviceGetHandleByIndex'', Some P_nvmlDeviceGetHandleByIndex),
      (''nvmlDeviceGetMemoryInfo'', Some P_nvmlDeviceGetMemoryInfo),
      (''nvmlDeviceGetCount_v2'', Some P_nvmlDeviceGetCount_v2),
      (''nvmlDeviceGetCudaComputeCapability'', Some P_nvmlDeviceGetCudaComputeCapability),
      (''nvmlSystemGetDriverVersion'', Some P_nvmlSystemGetDriverVersion),
      (''nvmlDeviceGetName'', Some P_nvmlDeviceGetName),
      (''nvmlDeviceGetSerial'', Some P_nvmlDeviceGetSerial),
      (''nvmlDeviceGetVbiosVersion'', Some P_nvmlDeviceGetVbiosVersion),
      (''nvmlDeviceGetBoardPartNumber'', Some P_nvmlDeviceGetBoardPartNumber),
      (''nvmlDeviceGetBrand'', Some P_nvmlDeviceGetBrand),
      (''cudaSetDevice'', Some P_cudaSetDevice),
      (''cudaDeviceReset'', Some P_cudaDeviceReset),
      (''cudaMemGetInfo'', Some P_cudaMemGetInfo),
      (''cudaGetDeviceCount'', Some P_cudaGetDeviceCount),
      (''cudaDeviceGetAttribute'', Some P_cudaDeviceGetAttribute),
      (''cudaDriverGetVersion'', Some P_cudaDriverGetVersion)]"

text \<open>
  The \<open>default\<close> case of the driver-version switch (lines 123-129): the handle is set
  to null first, so the library passed to \<open>UNLOAD_LIBRARY\<close> is the null one.
\<close>

definition init_default ::
  "'w env \<Rightarrow> cuda_init_resp \<Rightarrow> 'w sys \<Rightarrow> (cuda_init_resp \<times> 'w sys) option" where
  "init_default env resp s =
     (let resp1 = resp\<lparr>ir_ch := (ir_ch resp)\<lparr>handle := None\<rparr>\<rparr>;
          s1 = do_UNLOAD_LIBRARY env (handle (ir_ch resp1)) s
      in Some (resp1\<lparr>ir_err := Some (snprintf buflen
           ''unknown error: dlsym succeded but function pointers are unassigned'')\<rparr>, s1))"

text \<open>
  The switch on \<open>resp->ch.lib_t\<close> (lines 101-130). Case \<open>LIBCUDART\<close> ends in
  \<open>break\<close>; case \<open>LIBNVIDIAML\<close> has none and runs on into \<open>default\<close>. The version
  numbers are only logged.
\<close>

definition init_driver_version ::
  "'w env \<Rightarrow> cuda_init_resp \<Rightarrow> 'w sys \<Rightarrow> (cuda_init_resp \<times> 'w sys) option" where
  "init_driver_version env resp s =
     (case lib_t (ir_ch resp) of
        LIBCUDART \<Rightarrow>
          (case call_cudaDriverGetVersion env (cudaDriverGetVersion (ir_ch resp)) s of
             None \<Rightarrow> None
           | Some ((cudart_ret, version), s1) \<Rightarrow> Some (resp, s1))
      | LIBNVIDIAML \<Rightarrow>
          (case call_nvmlSystemGetDriverVersion env (nvmlSystemGetDriverVersion (ir_ch resp))
                  buflen s of
             None \<Rightarrow> None
           | Some (nvml_ret, s1) \<Rightarrow> init_default env resp s1)
      | LIBUNKNOWN \<Rightarrow> init_default env resp s)"

text \<open>Backend activation (lines 73-99), then the driver-version switch.\<close>

definition init_activate ::
  "'w env \<Rightarrow> cuda_init_resp \<Rightarrow> 'w sys \<Rightarrow> (cuda_init_resp \<times> 'w sys) option" where
  "init_activate env resp s =
     (if cudaSetDevice (ir_ch resp) \<noteq> None then
        (case call_cudaSetDevice env (cudaSetDevice (ir_ch resp)) 0 s of
           None \<Rightarrow> None
         | Some (cudart_ret, s1) \<Rightarrow>
             if cudart_ret \<noteq> CUDART_SUCCESS then
               (let s2 = do_UNLOAD_LIBRARY env (handle (ir_ch resp)) s1;
                    resp1 = resp\<lparr>ir_ch := (ir_ch resp)\<lparr>handle := None\<rparr>\<rparr>
                in Some (resp1\<lparr>ir_err := Some (snprintf buflen
                     (''cudart vram init failure: '' @ fmt_d cudart_ret))\<rparr>, s2))
             else
               init_driver_version env (resp\<lparr>ir_ch := (ir_ch resp)\<lparr>lib_t := LIBCUDART\<rparr>\<rparr>) s1)
      else if nvmlInit_v2 (ir_ch resp) \<noteq> None then
        (case call_nvmlInit_v2 env (nvmlInit_v2 (ir_ch resp)) s of
           None \<Rightarrow> None
         | Some (nvml_ret, s1) \<Rightarrow>
             if nvml_ret \<noteq> NVML_SUCCESS then
               (let s2 = do_UNLOAD_LIBRARY env (handle (ir_ch resp)) s1;
                    resp1 = resp\<lparr>ir_ch := (ir_ch resp)\<lparr>handle := None\<rparr>\<rparr>
                in Some (resp1\<lparr>ir_err := Some (snprintf buflen
                     (''nvml vram init failure: nvml error '' @ fmt_d nvml_ret))\<rparr>, s2))
             else
               init_driver_version env (resp\<lparr>ir_ch := (ir_ch resp)\<lparr>lib_t := LIBNVIDIAML\<rparr>\<rparr>) s1)
      else init_driver_version env resp s)"

text \<open>
  The symbol loop (lines 55-71), then activation. The resolved address is stored
  through \<open>l[i].p\<close>, and the test that follows is \<open>!l[i].p\<close>: it reads the address of
  the slot, not the slot.
\<close>

fun init_resolve ::
  "'w env \<Rightarrow> (string \<times> slot option) list \<Rightarrow> cuda_init_resp \<Rightarrow> 'w sys
    \<Rightarrow> (cuda_init_resp \<times> 'w sys) option" where
  "init_resolve env [] resp s = init_activate env resp s"
| "init_resolve env ((name, p) # l) resp s =
     (case do_LOAD_SYMBOL env (handle (ir_ch resp)) name s of
        (a, s1) \<Rightarrow>
          (case p of
             None \<Rightarrow> None
           | Some sl \<Rightarrow>
               (let resp1 = resp\<lparr>ir_ch := store_slot sl a (ir_ch resp)\<rparr> in
                if p = None then
                  (let resp2 = resp1\<lparr>ir_ch := (ir_ch resp1)\<lparr>handle := None\<rparr>\<rparr> in
                   case do_LOAD_ERR env s1 of
                     (msg, s2) \<Rightarrow>
                       (let s3 = do_UNLOAD_LIBRARY env (handle (ir_ch resp2)) s2
                        in Some (resp2\<lparr>ir_err := Some (snprintf buflen
                             (''symbol lookup for '' @ name @ '' failed: '' @ msg))\<rparr>, s3)))
                else init_resolve env l resp1 s1)))"

definition cuda_init ::
  "'w env \<Rightarrow> string \<Rightarrow> cuda_init_resp \<Rightarrow> 'w sys \<Rightarrow> (cuda_init_resp \<times> 'w sys) option" where
  "cuda_init env cuda_lib_path resp0 s =
     (let resp = resp0\<lparr>ir_err := None\<rparr>;
          resp = resp\<lparr>ir_ch := (ir_ch resp)\<lparr>lib_t := LIBUNKNOWN\<rparr>\<rparr>
      in case do_LOAD_LIBRARY env cuda_lib_path s of
           (lib_ref, s1) \<Rightarrow>
             (let resp = resp\<lparr>ir_ch := (ir_ch resp)\<lparr>handle := lib_ref\<rparr>\<rparr> in
              if handle (ir_ch resp) = None then
                (case do_LOAD_ERR env s1 of
                   (msg, s2) \<Rightarrow>
                     Some (resp\<lparr>ir_err := Some (snprintf buflen
                       (''Unable to load '' @ cuda_lib_path
                          @ '' library to query for Nvidia GPUs: '' @ msg))\<rparr>, s2))
              else init_resolve env lookup_tbl resp s1))"

text \<open>
  The loop equations are unfolded by hand in the proofs below, and by name where a
  concrete run is evaluated.
\<close>

declare cc_nvml_loop.simps [simp del]

declare cc_cudart_loop.simps [simp del]

declare vram_cudart_loop.simps [simp del]

declare vram_nvml_loop.simps [simp del]

section \<open>Reading a run from its trace\<close>

text \<open>The events a run added to the trace.\<close>

definition new_events :: "'w sys \<Rightarrow> 'w sys \<Rightarrow> event list" where
  "new_events s s' = drop (length (trace s)) (trace s')"

text \<open>
  The per-device memory readings of a run, as (total, free): what each memory query
  that returned success reported, in the order of the queries.
\<close>

fun mem_readings :: "event list \<Rightarrow> (64 word \<times> 64 word) list" where
  "mem_readings [] = []"
| "mem_readings (E_cudaMemGetInfo a ret free_b total_b # es) =
     (if ret = CUDART_SUCCESS then (total_b, free_b) # mem_readings es else mem_readings es)"
| "mem_readings (E_nvmlDeviceGetMemoryInfo a device ret m # es) =
     (if ret = NVML_SUCCESS then (nvml_total m, nvml_free m) # mem_readings es
      else mem_readings es)"
| "mem_readings (e # es) = mem_readings es"

text \<open>
  A per-device query (device select, per-device handle lookup, memory-info query,
  capability or attribute query) that returned a status other than success.
\<close>

fun step_failed :: "event \<Rightarrow> bool" where
  "step_failed (E_cudaSetDevice a i ret) = (ret \<noteq> CUDART_SUCCESS)"
| "step_failed (E_cudaMemGetInfo a ret free_b total_b) = (ret \<noteq> CUDART_SUCCESS)"
| "step_failed (E_cudaDeviceGetAttribute a attr device ret v) = (ret \<noteq> CUDART_SUCCESS)"
| "step_failed (E_nvmlDeviceGetHandleByIndex a i ret device) = (ret \<noteq> NVML_SUCCESS)"
| "step_failed (E_nvmlDeviceGetMemoryInfo a device ret m) = (ret \<noteq> NVML_SUCCESS)"
| "step_failed (E_nvmlDeviceGetCudaComputeCapability a device ret major minor) =
     (ret \<noteq> NVML_SUCCESS)"
| "step_failed e = False"

text \<open>A count query that returned success and reported \<open>n\<close> devices; one that failed.\<close>

fun count_reported :: "cint \<Rightarrow> event \<Rightarrow> bool" where
  "count_reported n (E_cudaGetDeviceCount a ret m) = (ret = CUDART_SUCCESS \<and> m = n)"
| "count_reported n (E_nvmlDeviceGetCount_v2 a ret m) = (ret = NVML_SUCCESS \<and> m = n)"
| "count_reported n e = False"



text \<open>
  The reduction rule in the spec's words: the running pair is replaced by the reading
  when the running major is 0 or strictly greater than the reading's major; only the
  minor is replaced when the majors are equal and the running minor is strictly greater.
\<close>

definition cc_rule :: "cint \<times> cint \<Rightarrow> cint \<times> cint \<Rightarrow> cint \<times> cint" where
  "cc_rule reading running =
     (if fst running = 0 \<or> fst reading <s fst running then reading
      else if fst running = fst reading \<and> snd reading <s snd running then
        (fst running, snd reading)
      else running)"


text \<open>
  The number of devices a count query reports: the runtime backend reads \<open>n\<close> as
  \<open>int\<close>, the management backend as \<open>unsigned int\<close>.
\<close>

definition device_count :: "cudaLibraryType \<Rightarrow> cint \<Rightarrow> nat" where
  "device_count t n = (case t of LIBCUDART \<Rightarrow> nat (sint n) | _ \<Rightarrow> unat n)"

text \<open>What holds of the first event of a run.\<close>

fun first_is :: "(event \<Rightarrow> bool) \<Rightarrow> event list \<Rightarrow> bool" where
  "first_is P [] = False"
| "first_is P (e # es) = P e"

section \<open>What the backend answers\<close>

text \<open>
  The queries ask the devices of the active backend one after the other, in ascending
  order of index, and stop at the first step that fails (sections 4.2 and 4.3 of the
  spec). What the backend answers to that is fixed by the environment alone. The
  functions of this section put the questions to the entry points behind the slots of
  the handle, thread the world from one answer to the next and collect the readings;
  they compute no result. The claims relate what \<open>cuda_check_vram\<close> and
  \<open>cuda_compute_capability\<close> return to these answers.

  A step that fails is the one that yields the device (device select, per-device
  handle lookup) or the query proper; it is recorded with the index of the device and
  the status returned.
\<close>

datatype failure = Handle_failed cint cint | Query_failed cint cint

text \<open>
  \<open>k\<close> devices are asked from index \<open>i\<close> on, each by \<open>q\<close>: the readings of the
  devices that answered, in order, the first failure if there is one, and the world
  after the last answer. There is no answer (\<open>None\<close>) where \<open>q\<close> has none: a slot it
  calls through is null.
\<close>

fun ask_devices ::
  "(cint \<Rightarrow> 'w \<Rightarrow> ((failure + 'r) \<times> 'w) option) \<Rightarrow> nat \<Rightarrow> cint \<Rightarrow> 'w
    \<Rightarrow> ('r list \<times> failure option \<times> 'w) option" where
  "ask_devices q 0 i w = Some ([], None, w)"
| "ask_devices q (Suc k) i w =
     (case q i w of
        None \<Rightarrow> None
      | Some (Inl f, w1) \<Rightarrow> Some ([], Some f, w1)
      | Some (Inr r, w1) \<Rightarrow>
          (case ask_devices q k (i + 1) w1 of
             None \<Rightarrow> None
           | Some (rs, out, w') \<Rightarrow> Some (r # rs, out, w')))"

text \<open>
  Memory, runtime backend: select the device, then query the memory of the current
  device. A reading is (total, free).
\<close>

definition runtime_memory_query ::
  "'w env \<Rightarrow> cuda_handle \<Rightarrow> cint \<Rightarrow> 'w \<Rightarrow> ((failure + 64 word \<times> 64 word) \<times> 'w) option" where
  "runtime_memory_query env h i w =
     (case cudaSetDevice h of
        None \<Rightarrow> None
      | Some a \<Rightarrow>
          (case fn_cudaSetDevice env a i w of
             (ret, w1) \<Rightarrow>
               if ret \<noteq> CUDART_SUCCESS then Some (Inl (Handle_failed i ret), w1)
               else
                 (case cudaMemGetInfo h of
                    None \<Rightarrow> None
                  | Some b \<Rightarrow>
                      (case fn_cudaMemGetInfo env b w1 of
                         ((ret, free_b, total_b), w2) \<Rightarrow>
                           if ret \<noteq> CUDART_SUCCESS then Some (Inl (Query_failed i ret), w2)
                           else Some (Inr (total_b, free_b), w2)))))"

text \<open>
  Memory, management backend: resolve the device's handle by index, then query the
  memory of that handle. With verbosity enabled the five diagnostic queries follow;
  what they return is not part of the answer, but they are entry points too and the
  world goes through them.
\<close>

definition diagnostic_text :: "'w env \<Rightarrow> addr option \<Rightarrow> nvmlDevice \<Rightarrow> 'w \<Rightarrow> 'w option" where
  "diagnostic_text env slot device w =
     (case slot of
        None \<Rightarrow> None
      | Some a \<Rightarrow> Some (snd (fn_nvmlDeviceText env a device buflen w)))"

definition diagnostics :: "'w env \<Rightarrow> cuda_handle \<Rightarrow> nvmlDevice \<Rightarrow> 'w \<Rightarrow> 'w option" where
  "diagnostics env h device w =
     (case diagnostic_text env (nvmlDeviceGetName h) device w of
        None \<Rightarrow> None
      | Some w1 \<Rightarrow>
     (case diagnostic_text env (nvmlDeviceGetBoardPartNumber h) device w1 of
        None \<Rightarrow> None
      | Some w2 \<Rightarrow>
     (case diagnostic_text env (nvmlDeviceGetSerial h) device w2 of
        None \<Rightarrow> None
      | Some w3 \<Rightarrow>
     (case diagnostic_text env (nvmlDeviceGetVbiosVersion h) device w3 of
        None \<Rightarrow> None
      | Some w4 \<Rightarrow>
     (case nvmlDeviceGetBrand h of
        None \<Rightarrow> None
      | Some a \<Rightarrow> Some (snd (fn_nvmlDeviceGetBrand env a device w4)))))))"

definition management_memory_query ::
  "'w env \<Rightarrow> cuda_handle \<Rightarrow> cint \<Rightarrow> 'w \<Rightarrow> ((failure + 64 word \<times> 64 word) \<times> 'w) option" where
  "management_memory_query env h i w =
     (case nvmlDeviceGetHandleByIndex h of
        None \<Rightarrow> None
      | Some a \<Rightarrow>
          (case fn_nvmlDeviceGetHandleByIndex env a i w of
             ((ret, device), w1) \<Rightarrow>
               if ret \<noteq> NVML_SUCCESS then Some (Inl (Handle_failed i ret), w1)
               else
                 (case nvmlDeviceGetMemoryInfo h of
                    None \<Rightarrow> None
                  | Some b \<Rightarrow>
                      (case fn_nvmlDeviceGetMemoryInfo env b device w1 of
                         ((ret, m), w2) \<Rightarrow>
                           if ret \<noteq> NVML_SUCCESS then Some (Inl (Query_failed i ret), w2)
                           else
                             (case (if verbose h \<noteq> 0 then diagnostics env h device w2
                                    else Some w2) of
                                None \<Rightarrow> None
                              | Some w3 \<Rightarrow> Some (Inr (nvml_total m, nvml_free m), w3))))))"

text \<open>
  The count query of the active backend, then its devices: the count \<open>n\<close> reported
  with success, the readings and the first failure among the \<open>n\<close> devices. There is
  no answer where the tag is unknown, the count query fails or a slot is null.
\<close>

definition memory_answers ::
  "'w env \<Rightarrow> cuda_handle \<Rightarrow> 'w
    \<Rightarrow> (cint \<times> (64 word \<times> 64 word) list \<times> failure option \<times> 'w) option" where
  "memory_answers env h w =
     (case lib_t h of
        LIBCUDART \<Rightarrow>
          (case cudaGetDeviceCount h of
             None \<Rightarrow> None
           | Some a \<Rightarrow>
               (case fn_cudaGetDeviceCount env a w of
                  ((ret, n), w1) \<Rightarrow>
                    if ret \<noteq> CUDART_SUCCESS then None
                    else
                      (case ask_devices (runtime_memory_query env h) (unat n) 0 w1 of
                         None \<Rightarrow> None
                       | Some (rs, out, w') \<Rightarrow> Some (n, rs, out, w'))))
      | LIBNVIDIAML \<Rightarrow>
          (case nvmlDeviceGetCount_v2 h of
             None \<Rightarrow> None
           | Some a \<Rightarrow>
               (case fn_nvmlDeviceGetCount_v2 env a w of
                  ((ret, n), w1) \<Rightarrow>
                    if ret \<noteq> NVML_SUCCESS then None
                    else
                      (case ask_devices (management_memory_query env h) (unat n) 0 w1 of
                         None \<Rightarrow> None
                       | Some (rs, out, w') \<Rightarrow> Some (n, rs, out, w'))))
      | LIBUNKNOWN \<Rightarrow> None)"

text \<open>
  Capability, runtime backend: select the device, then the attribute query for the major
  and the one for the minor (the spec names the two attribute queries; the select comes
  first in gpu\_info\_cuda.c, line 322). Capability, management backend: resolve the
  device's handle by index, then the one query for both. A reading is (major, minor).
\<close>

definition runtime_capability_query ::
  "'w env \<Rightarrow> cuda_handle \<Rightarrow> cint \<Rightarrow> 'w \<Rightarrow> ((failure + cint \<times> cint) \<times> 'w) option" where
  "runtime_capability_query env h i w =
     (case cudaSetDevice h of
        None \<Rightarrow> None
      | Some a \<Rightarrow>
          (case fn_cudaSetDevice env a i w of
             (ret, w1) \<Rightarrow>
               if ret \<noteq> CUDART_SUCCESS then Some (Inl (Handle_failed i ret), w1)
               else
                 (case cudaDeviceGetAttribute h of
                    None \<Rightarrow> None
                  | Some b \<Rightarrow>
                      (case fn_cudaDeviceGetAttribute env b cudaDevAttrComputeCapabilityMajor i w1 of
                         ((ret, major), w2) \<Rightarrow>
                           if ret \<noteq> CUDART_SUCCESS then Some (Inl (Query_failed i ret), w2)
                           else
                             (case fn_cudaDeviceGetAttribute env b
                                     cudaDevAttrComputeCapabilityMinor i w2 of
                                ((ret, minor), w3) \<Rightarrow>
                                  if ret \<noteq> CUDART_SUCCESS then
                                    Some (Inl (Query_failed i ret), w3)
                                  else Some (Inr (major, minor), w3))))))"

definition management_capability_query ::
  "'w env \<Rightarrow> cuda_handle \<Rightarrow> cint \<Rightarrow> 'w \<Rightarrow> ((failure + cint \<times> cint) \<times> 'w) option" where
  "management_capability_query env h i w =
     (case nvmlDeviceGetHandleByIndex h of
        None \<Rightarrow> None
      | Some a \<Rightarrow>
          (case fn_nvmlDeviceGetHandleByIndex env a i w of
             ((ret, device), w1) \<Rightarrow>
               if ret \<noteq> NVML_SUCCESS then Some (Inl (Handle_failed i ret), w1)
               else
                 (case nvmlDeviceGetCudaComputeCapability h of
                    None \<Rightarrow> None
                  | Some b \<Rightarrow>
                      (case fn_nvmlDeviceGetCudaComputeCapability env b device w1 of
                         ((ret, major, minor), w2) \<Rightarrow>
                           if ret \<noteq> NVML_SUCCESS then Some (Inl (Query_failed i ret), w2)
                           else Some (Inr (major, minor), w2)))))"

text \<open>
  The runtime backend reads the count as \<open>int\<close>, so a negative count is no device.
\<close>

definition capability_answers ::
  "'w env \<Rightarrow> cuda_handle \<Rightarrow> 'w
    \<Rightarrow> (cint \<times> (cint \<times> cint) list \<times> failure option \<times> 'w) option" where
  "capability_answers env h w =
     (case lib_t h of
        LIBCUDART \<Rightarrow>
          (case cudaGetDeviceCount h of
             None \<Rightarrow> None
           | Some a \<Rightarrow>
               (case fn_cudaGetDeviceCount env a w of
                  ((ret, n), w1) \<Rightarrow>
                    if ret \<noteq> CUDART_SUCCESS then None
                    else
                      (case ask_devices (runtime_capability_query env h) (nat (sint n)) 0 w1 of
                         None \<Rightarrow> None
                       | Some (rs, out, w') \<Rightarrow> Some (n, rs, out, w'))))
      | LIBNVIDIAML \<Rightarrow>
          (case nvmlDeviceGetCount_v2 h of
             None \<Rightarrow> None
           | Some a \<Rightarrow>
               (case fn_nvmlDeviceGetCount_v2 env a w of
                  ((ret, n), w1) \<Rightarrow>
                    if ret \<noteq> NVML_SUCCESS then None
                    else
                      (case ask_devices (management_capability_query env h) (unat n) 0 w1 of
                         None \<Rightarrow> None
                       | Some (rs, out, w') \<Rightarrow> Some (n, rs, out, w'))))
      | LIBUNKNOWN \<Rightarrow> None)"

text \<open>
  The error text of a failed step, for a memory query and for a capability query, and
  what a recorded failure says: the index of the device and a status other than success.
\<close>

fun memory_failure_text :: "failure \<Rightarrow> string" where
  "memory_failure_text (Handle_failed i ret) =
     snprintf buflen (''unable to get device handle '' @ fmt_d i @ '': '' @ fmt_d ret)"
| "memory_failure_text (Query_failed i ret) =
     snprintf buflen (''device memory info lookup failure '' @ fmt_d i @ '': '' @ fmt_d ret)"

fun capability_failure_text :: "failure \<Rightarrow> string" where
  "capability_failure_text (Handle_failed i ret) =
     snprintf buflen (''unable to get device handle '' @ fmt_d i @ '': '' @ fmt_d ret)"
| "capability_failure_text (Query_failed i ret) =
     snprintf buflen
       (''device compute capability lookup failure '' @ fmt_d i @ '': '' @ fmt_d ret)"

fun failed_at :: "cint \<Rightarrow> failure \<Rightarrow> bool" where
  "failed_at j (Handle_failed i ret) = (i = j \<and> ret \<noteq> 0)"
| "failed_at j (Query_failed i ret) = (i = j \<and> ret \<noteq> 0)"

text \<open>
  What the loader and the runtime vocabulary answer to \<open>cuda_init\<close>: every name of
  the lookup table resolved in order and stored in its slot, null or not; then the
  library opened, the table filled, device 0 selected with success through the resolved
  \<open>cudaSetDevice\<close>, and the driver version asked. The answer is the handle this leaves
  and the world after the last call; there is none where the library does not open, the
  select fails or a slot called through is null.
\<close>

fun resolve_answers ::
  "'w env \<Rightarrow> lib option \<Rightarrow> (string \<times> slot option) list \<Rightarrow> cuda_handle \<Rightarrow> 'w
    \<Rightarrow> (cuda_handle \<times> 'w) option" where
  "resolve_answers env lib [] ch w = Some (ch, w)"
| "resolve_answers env lib ((name, p) # l) ch w =
     (case p of
        None \<Rightarrow> None
      | Some sl \<Rightarrow>
          (case LOAD_SYMBOL env lib name w of
             (a, w1) \<Rightarrow> resolve_answers env lib l (store_slot sl a ch) w1))"

definition runtime_activation ::
  "'w env \<Rightarrow> string \<Rightarrow> cuda_handle \<Rightarrow> 'w \<Rightarrow> (cuda_handle \<times> 'w) option" where
  "runtime_activation env path ch w =
     (case LOAD_LIBRARY env path w of
        (None, w1) \<Rightarrow> None
      | (Some lib, w1) \<Rightarrow>
          (case resolve_answers env (Some lib) lookup_tbl
                  (ch\<lparr>lib_t := LIBUNKNOWN, handle := Some lib\<rparr>) w1 of
             None \<Rightarrow> None
           | Some (ch1, w2) \<Rightarrow>
               (case cudaSetDevice ch1 of
                  None \<Rightarrow> None
                | Some a \<Rightarrow>
                    (case fn_cudaSetDevice env a 0 w2 of
                       (ret, w3) \<Rightarrow>
                         if ret \<noteq> CUDART_SUCCESS then None
                         else
                           (case cudaDriverGetVersion ch1 of
                              None \<Rightarrow> None
                            | Some b \<Rightarrow>
                                Some (ch1\<lparr>lib_t := LIBCUDART\<rparr>,
                                      snd (fn_cudaDriverGetVersion env b w3)))))))"

section \<open>Synthetic backends\<close>

text \<open>
  A synthetic library for concrete runs: what the loader yields, the status of
  \<open>nvmlInit_v2\<close>, the status of selecting a device by index, the count query's answer
  and each device's memory and capability. The world is the index of the device the
  runtime vocabulary has current.
\<close>

record fake =
  fk_lib :: "lib option"
  fk_dlerror :: string
  fk_sym :: "string \<Rightarrow> addr option"
  fk_init :: cint
  fk_select :: "cint \<Rightarrow> cint"
  fk_count :: "cint \<times> cint"
  fk_mem :: "nat \<Rightarrow> cint \<times> 64 word \<times> 64 word"
  fk_cc :: "nat \<Rightarrow> cint \<times> cint \<times> cint"

definition fake_env :: "fake \<Rightarrow> nat env" where
  "fake_env f =
     \<lparr>LOAD_LIBRARY = (\<lambda>path w. (fk_lib f, w)),
      LOAD_ERR = (\<lambda>w. (fk_dlerror f, w)),
      LOAD_SYMBOL = (\<lambda>h name w. (fk_sym f name, w)),
      UNLOAD_LIBRARY = (\<lambda>h w. w),
      fn_nvmlInit_v2 = (\<lambda>a w. (fk_init f, w)),
      fn_nvmlDeviceGetHandleByIndex = (\<lambda>a i w. ((fk_select f i, unat i), w)),
      fn_nvmlDeviceGetMemoryInfo =
        (\<lambda>a d w. (case fk_mem f d of
           (st, t, fr) \<Rightarrow> (st, \<lparr>nvml_total = t, nvml_free = fr, nvml_used = t - fr\<rparr>), w)),
      fn_nvmlDeviceGetCount_v2 = (\<lambda>a w. (fk_count f, w)),
      fn_nvmlDeviceGetCudaComputeCapability = (\<lambda>a d w. (fk_cc f d, w)),
      fn_nvmlSystemGetDriverVersion = (\<lambda>a n w. ((0, ''535.104''), w)),
      fn_nvmlDeviceText = (\<lambda>a d n w. ((0, []), w)),
      fn_nvmlDeviceGetBrand = (\<lambda>a d w. ((0, 0), w)),
      fn_cudaSetDevice = (\<lambda>a i w. (fk_select f i, if fk_select f i = 0 then unat i else w)),
      fn_cudaMemGetInfo = (\<lambda>a w. (case fk_mem f w of (st, t, fr) \<Rightarrow> (st, fr, t), w)),
      fn_cudaGetDeviceCount = (\<lambda>a w. (fk_count f, w)),
      fn_cudaDeviceGetAttribute =
        (\<lambda>a attr d w. (case fk_cc f (unat d) of
           (st, mj, mn) \<Rightarrow> (st, if attr = cudaDevAttrComputeCapabilityMajor then mj else mn), w)),
      fn_cudaDriverGetVersion = (\<lambda>a w. ((0, 12020), w))\<rparr>"

definition full_handle :: "cudaLibraryType \<Rightarrow> cuda_handle" where
  "full_handle t =
     \<lparr>handle = Some 1, verbose = 0, lib_t = t,
      nvmlInit_v2 = Some 1, nvmlShutdown = Some 2, nvmlDeviceGetHandleByIndex = Some 3,
      nvmlDeviceGetMemoryInfo = Some 4, nvmlDeviceGetCount_v2 = Some 5,
      nvmlDeviceGetCudaComputeCapability = Some 6, nvmlSystemGetDriverVersion = Some 7,
      nvmlDeviceGetName = Some 8, nvmlDeviceGetSerial = Some 9,
      nvmlDeviceGetVbiosVersion = Some 10, nvmlDeviceGetBoardPartNumber = Some 11,
      nvmlDeviceGetBrand = Some 12, cudaSetDevice = Some 13, cudaDeviceReset = Some 14,
      cudaMemGetInfo = Some 15, cudaGetDeviceCount = Some 16,
      cudaDeviceGetAttribute = Some 17, cudaDriverGetVersion = Some 18\<rparr>"

definition s0 :: "nat sys" where
  "s0 = \<lparr>world = 0, trace = []\<rparr>"

text \<open>Caller-supplied result structs holding stale contents.\<close>

definition stale_mem :: mem_info where
  "stale_mem = \<lparr>mi_total = 99, mi_free = 99, mi_count = 99, mi_err = Some ''stale''\<rparr>"

definition stale_cc :: cuda_compute_capability_t where
  "stale_cc = \<lparr>cc_err = Some ''stale'', cc_major = 99, cc_minor = 99\<rparr>"

definition stale_init :: cuda_init_resp where
  "stale_init = \<lparr>ir_err = Some ''stale'', ir_ch = full_handle LIBCUDART\<rparr>"

text \<open>The fleet of the spec's memory test: two devices, 8e9/2e9 and 4e9/1e9 bytes.\<close>

definition fleet2 :: fake where
  "fleet2 =
     \<lparr>fk_lib = Some 1, fk_dlerror = [], fk_sym = (\<lambda>name. Some 1), fk_init = 0,
      fk_select = (\<lambda>i. 0), fk_count = (0, 2),
      fk_mem = (\<lambda>d. if d = 0 then (0, 8000000000, 2000000000)
                     else (0, 4000000000, 1000000000)),
      fk_cc = (\<lambda>d. if d = 0 then (0, 8, 6) else (0, 7, 5))\<rparr>"

text \<open>
  The same fleet with device 1 lost (selecting it returns status 3), and with devices
  that each report \<open>2 ^ 63\<close> bytes.
\<close>

definition fleet2_lost :: fake where
  "fleet2_lost = fleet2\<lparr>fk_select := (\<lambda>i. if i = 1 then 3 else 0)\<rparr>"

definition fleet2_huge :: fake where
  "fleet2_huge = fleet2\<lparr>fk_mem := (\<lambda>d. (0, 2 ^ 63, 2 ^ 63))\<rparr>"


definition fleet_empty :: fake where
  "fleet_empty = fleet2\<lparr>fk_count := (0, 0)\<rparr>"

text \<open>
  The fleet of the spec's capability test, (8,6), (7,5), (8,0), and a backend whose
  count query fails with status 7.
\<close>

definition fleet3 :: fake where
  "fleet3 =
     fleet2\<lparr>fk_count := (0, 3),
            fk_cc := (\<lambda>d. if d = 0 then (0, 8, 6) else if d = 1 then (0, 7, 5) else (0, 8, 0))\<rparr>"


text \<open>
  Libraries for \<open>cuda_init\<close>: one that exports the management vocabulary only, one that
  lacks a single symbol, one whose runtime vocabulary fails to select device 0 (status
  5) while \<open>nvmlInit_v2\<close> would succeed, and one that cannot be opened.
\<close>

definition lib_nvml_only :: fake where
  "lib_nvml_only =
     fleet2\<lparr>fk_sym := (\<lambda>name. if take 4 name = ''nvml'' then Some 1 else None)\<rparr>"

definition lib_no_brand :: fake where
  "lib_no_brand =
     fleet2\<lparr>fk_sym := (\<lambda>name. if name = ''nvmlDeviceGetBrand'' then None else Some 1)\<rparr>"

definition lib_runtime_down :: fake where
  "lib_runtime_down = fleet2\<lparr>fk_select := (\<lambda>i. 5)\<rparr>"

definition lib_absent :: fake where
  "lib_absent = fleet2\<lparr>fk_lib := None, fk_dlerror := ''no such file''\<rparr>"

section \<open>Runs of the memory aggregation\<close>

lemma trace_emit [simp]: "trace (emit w e s) = trace s @ [e]"
  by (simp add: emit_def)

lemma world_emit [simp]: "world (emit w e s) = w"
  by (simp add: emit_def)

text \<open>
  The shape of an answer: either every device answered, or the failure is at the index
  after the devices read.
\<close>

lemma ask_devices_shape:
  assumes q: "\<And>j w f w1. q j w = Some (Inl f, w1) \<Longrightarrow> failed_at j f"
    and ask: "ask_devices q k i w = Some (rs, out, w')"
  shows "case out of None \<Rightarrow> length rs = k
         | Some f \<Rightarrow> length rs < k \<and> failed_at (i + of_nat (length rs)) f"
  using ask
proof (induction k arbitrary: i w rs)
  case 0
  then show ?case by simp
next
  case (Suc k)
  show ?case
  proof (cases "q i w")
    case None
    with Suc.prems show ?thesis by simp
  next
    case (Some x)
    obtain y w1 where x: "x = (y, w1)" by (cases x)
    show ?thesis
    proof (cases y)
      case (Inl f)
      with Some x Suc.prems q [of i w f w1] show ?thesis by auto
    next
      case (Inr r)
      with Some x Suc.prems obtain rs' where
        rec: "ask_devices q k (i + 1) w1 = Some (rs', out, w')" and rs: "rs = r # rs'"
        by (auto split: option.splits)
      from Suc.IH [OF rec] rs show ?thesis
        by (cases out) (simp_all add: ac_simps)
    qed
  qed
qed

lemma runtime_memory_query_failed:
  "runtime_memory_query env h j w = Some (Inl f, w1) \<Longrightarrow> failed_at j f"
  by (auto simp: runtime_memory_query_def CUDART_SUCCESS_def
           split: option.splits prod.splits if_splits)

lemma management_memory_query_failed:
  "management_memory_query env h j w = Some (Inl f, w1) \<Longrightarrow> failed_at j f"
  by (auto simp: management_memory_query_def NVML_SUCCESS_def
           split: option.splits prod.splits if_splits)

lemma runtime_capability_query_failed:
  "runtime_capability_query env h j w = Some (Inl f, w1) \<Longrightarrow> failed_at j f"
  by (auto simp: runtime_capability_query_def CUDART_SUCCESS_def
           split: option.splits prod.splits if_splits)

lemma management_capability_query_failed:
  "management_capability_query env h j w = Some (Inl f, w1) \<Longrightarrow> failed_at j f"
  by (auto simp: management_capability_query_def NVML_SUCCESS_def
           split: option.splits prod.splits if_splits)

text \<open>
  Each memory loop, started at index \<open>i\<close> with \<open>k\<close> devices left, returns when the
  backend answers: it adds the readings to total and free, sets err to the text of the
  failure if there is one, and leaves the world where the answers left it.
\<close>

lemma vram_cudart_loop_answers:
  assumes "ask_devices (runtime_memory_query env h) k i (world s) = Some (rs, out, w')"
    and "unat i + k = unat (mi_count resp)"
  shows "\<exists>s'. vram_cudart_loop env h i resp s
           = Some (resp\<lparr>mi_total := mi_total resp + sum_list (map fst rs),
                         mi_free := mi_free resp + sum_list (map snd rs),
                         mi_err := (case out of None \<Rightarrow> mi_err resp
                                    | Some f \<Rightarrow> Some (memory_failure_text f))\<rparr>, s')
         \<and> world s' = w'"
  using assms
proof (induction k arbitrary: i resp s rs)
  case 0
  then have "\<not> i < mi_count resp"
    by (simp add: word_less_nat_alt)
  with 0 show ?case
    by (subst vram_cudart_loop.simps) simp
next
  case (Suc k)
  from Suc.prems(2) have lt: "i < mi_count resp"
    by (simp add: word_less_nat_alt)
  from Suc.prems(1) obtain a where a: "cudaSetDevice h = Some a"
    by (auto simp: runtime_memory_query_def split: option.splits)
  obtain ret w1 where sel: "fn_cudaSetDevice env a i (world s) = (ret, w1)"
    by (cases "fn_cudaSetDevice env a i (world s)")
  let ?s1 = "emit w1 (E_cudaSetDevice a i ret) s"
  have c1: "call_cudaSetDevice env (cudaSetDevice h) i s = Some (ret, ?s1)"
    by (simp add: call_cudaSetDevice_def a sel)
  show ?case
  proof (cases "ret = CUDART_SUCCESS")
    case False
    with a sel have
      "runtime_memory_query env h i (world s) = Some (Inl (Handle_failed i ret), w1)"
      by (simp add: runtime_memory_query_def)
    with Suc.prems(1) have "rs = []" "out = Some (Handle_failed i ret)" "w' = w1"
      by simp_all
    with lt c1 False show ?thesis
      by (subst vram_cudart_loop.simps) simp
  next
    case True
    with Suc.prems(1) a sel obtain b where b: "cudaMemGetInfo h = Some b"
      by (auto simp: runtime_memory_query_def split: option.splits)
    obtain ret2 fr tot w2 where mem: "fn_cudaMemGetInfo env b w1 = ((ret2, fr, tot), w2)"
      by (cases "fn_cudaMemGetInfo env b w1") auto
    let ?s2 = "emit w2 (E_cudaMemGetInfo b ret2 fr tot) ?s1"
    have c2: "call_cudaMemGetInfo env (cudaMemGetInfo h) ?s1 = Some ((ret2, fr, tot), ?s2)"
      by (simp add: call_cudaMemGetInfo_def b mem)
    show ?thesis
    proof (cases "ret2 = CUDART_SUCCESS")
      case False
      with a sel True b mem have
        "runtime_memory_query env h i (world s) = Some (Inl (Query_failed i ret2), w2)"
        by (simp add: runtime_memory_query_def)
      with Suc.prems(1) have "rs = []" "out = Some (Query_failed i ret2)" "w' = w2"
        by simp_all
      with lt c1 c2 True False show ?thesis
        by (subst vram_cudart_loop.simps) simp
    next
      case ok: True
      let ?resp = "resp\<lparr>mi_total := mi_total resp + tot, mi_free := mi_free resp + fr\<rparr>"
      from a sel True b mem ok have
        "runtime_memory_query env h i (world s) = Some (Inr (tot, fr), w2)"
        by (simp add: runtime_memory_query_def)
      with Suc.prems(1) obtain rs' where
        rec: "ask_devices (runtime_memory_query env h) k (i + 1) (world ?s2) = Some (rs', out, w')"
        and rs: "rs = (tot, fr) # rs'"
        by (auto split: option.splits)
      from Suc.prems(2) lt have "unat (i + 1) + k = unat (mi_count ?resp)"
        by (simp add: word_inc_unat)
      from Suc.IH [OF rec this] obtain s' where
        "vram_cudart_loop env h (i + 1) ?resp ?s2
           = Some (?resp\<lparr>mi_total := mi_total ?resp + sum_list (map fst rs'),
                         mi_free := mi_free ?resp + sum_list (map snd rs'),
                         mi_err := (case out of None \<Rightarrow> mi_err ?resp
                                    | Some f \<Rightarrow> Some (memory_failure_text f))\<rparr>, s')"
        "world s' = w'"
        by blast
      with lt c1 c2 True ok rs show ?thesis
        by (subst vram_cudart_loop.simps) (cases out; simp add: add.assoc)
    qed
  qed
qed

lemma call_nvmlDeviceText_answers:
  "diagnostic_text env slot device (world s) = Some w1 \<Longrightarrow>
   \<exists>r s1. call_nvmlDeviceText env slot device buflen s = Some (r, s1) \<and> world s1 = w1"
  by (auto simp: diagnostic_text_def call_nvmlDeviceText_def split: option.splits prod.splits)

lemma vram_nvml_verbose_answers:
  assumes "diagnostics env h device (world s) = Some w'"
  shows "\<exists>s'. vram_nvml_verbose env h device s = Some s' \<and> world s' = w'"
proof -
  from assms obtain w1 w2 w3 w4 a where
    d1: "diagnostic_text env (nvmlDeviceGetName h) device (world s) = Some w1" and
    d2: "diagnostic_text env (nvmlDeviceGetBoardPartNumber h) device w1 = Some w2" and
    d3: "diagnostic_text env (nvmlDeviceGetSerial h) device w2 = Some w3" and
    d4: "diagnostic_text env (nvmlDeviceGetVbiosVersion h) device w3 = Some w4" and
    a: "nvmlDeviceGetBrand h = Some a" and
    w': "w' = snd (fn_nvmlDeviceGetBrand env a device w4)"
    by (auto simp: diagnostics_def split: option.splits)
  from call_nvmlDeviceText_answers [OF d1] obtain r1 s1 where
    c1: "call_nvmlDeviceText env (nvmlDeviceGetName h) device buflen s = Some (r1, s1)"
    and e1: "world s1 = w1"
    by blast
  from d2 e1 have "diagnostic_text env (nvmlDeviceGetBoardPartNumber h) device (world s1) = Some w2"
    by simp
  from call_nvmlDeviceText_answers [OF this] obtain r2 s2 where
    c2: "call_nvmlDeviceText env (nvmlDeviceGetBoardPartNumber h) device buflen s1 = Some (r2, s2)"
    and e2: "world s2 = w2"
    by blast
  from d3 e2 have "diagnostic_text env (nvmlDeviceGetSerial h) device (world s2) = Some w3"
    by simp
  from call_nvmlDeviceText_answers [OF this] obtain r3 s3 where
    c3: "call_nvmlDeviceText env (nvmlDeviceGetSerial h) device buflen s2 = Some (r3, s3)"
    and e3: "world s3 = w3"
    by blast
  from d4 e3 have "diagnostic_text env (nvmlDeviceGetVbiosVersion h) device (world s3) = Some w4"
    by simp
  from call_nvmlDeviceText_answers [OF this] obtain r4 s4 where
    c4: "call_nvmlDeviceText env (nvmlDeviceGetVbiosVersion h) device buflen s3 = Some (r4, s4)"
    and e4: "world s4 = w4"
    by blast
  have "\<exists>r5 s5. call_nvmlDeviceGetBrand env (nvmlDeviceGetBrand h) device s4 = Some (r5, s5)
          \<and> world s5 = w'"
    using a w' e4 by (auto simp: call_nvmlDeviceGetBrand_def split: prod.splits)
  with c1 c2 c3 c4 show ?thesis
    by (auto simp: vram_nvml_verbose_def)
qed

lemma vram_nvml_loop_answers:
  assumes "ask_devices (management_memory_query env h) k i (world s) = Some (rs, out, w')"
    and "unat i + k = unat (mi_count resp)"
  shows "\<exists>s'. vram_nvml_loop env h i resp s
           = Some (resp\<lparr>mi_total := mi_total resp + sum_list (map fst rs),
                         mi_free := mi_free resp + sum_list (map snd rs),
                         mi_err := (case out of None \<Rightarrow> mi_err resp
                                    | Some f \<Rightarrow> Some (memory_failure_text f))\<rparr>, s')
         \<and> world s' = w'"
  using assms
proof (induction k arbitrary: i resp s rs)
  case 0
  then have "\<not> i < mi_count resp"
    by (simp add: word_less_nat_alt)
  with 0 show ?case
    by (subst vram_nvml_loop.simps) simp
next
  case (Suc k)
  from Suc.prems(2) have lt: "i < mi_count resp"
    by (simp add: word_less_nat_alt)
  from Suc.prems(1) obtain a where a: "nvmlDeviceGetHandleByIndex h = Some a"
    by (auto simp: management_memory_query_def split: option.splits)
  obtain ret d w1 where sel: "fn_nvmlDeviceGetHandleByIndex env a i (world s) = ((ret, d), w1)"
    by (cases "fn_nvmlDeviceGetHandleByIndex env a i (world s)") auto
  let ?s1 = "emit w1 (E_nvmlDeviceGetHandleByIndex a i ret d) s"
  have c1: "call_nvmlDeviceGetHandleByIndex env (nvmlDeviceGetHandleByIndex h) i s
      = Some ((ret, d), ?s1)"
    by (simp add: call_nvmlDeviceGetHandleByIndex_def a sel)
  show ?case
  proof (cases "ret = NVML_SUCCESS")
    case False
    with a sel have
      "management_memory_query env h i (world s) = Some (Inl (Handle_failed i ret), w1)"
      by (simp add: management_memory_query_def)
    with Suc.prems(1) have "rs = []" "out = Some (Handle_failed i ret)" "w' = w1"
      by simp_all
    with lt c1 False show ?thesis
      by (subst vram_nvml_loop.simps) simp
  next
    case True
    with Suc.prems(1) a sel obtain b where b: "nvmlDeviceGetMemoryInfo h = Some b"
      by (auto simp: management_memory_query_def split: option.splits)
    obtain ret2 m w2 where mem: "fn_nvmlDeviceGetMemoryInfo env b d w1 = ((ret2, m), w2)"
      by (cases "fn_nvmlDeviceGetMemoryInfo env b d w1") auto
    let ?s2 = "emit w2 (E_nvmlDeviceGetMemoryInfo b d ret2 m) ?s1"
    have c2: "call_nvmlDeviceGetMemoryInfo env (nvmlDeviceGetMemoryInfo h) d ?s1
        = Some ((ret2, m), ?s2)"
      by (simp add: call_nvmlDeviceGetMemoryInfo_def b mem)
    show ?thesis
    proof (cases "ret2 = NVML_SUCCESS")
      case False
      with a sel True b mem have
        "management_memory_query env h i (world s) = Some (Inl (Query_failed i ret2), w2)"
        by (simp add: management_memory_query_def)
      with Suc.prems(1) have "rs = []" "out = Some (Query_failed i ret2)" "w' = w2"
        by simp_all
      with lt c1 c2 True False show ?thesis
        by (subst vram_nvml_loop.simps) simp
    next
      case ok: True
      let ?resp = "resp\<lparr>mi_total := mi_total resp + nvml_total m,
                         mi_free := mi_free resp + nvml_free m\<rparr>"
      from Suc.prems(1) a sel True b mem ok obtain w3 where
        dg: "(if verbose h \<noteq> 0 then diagnostics env h d w2 else Some w2) = Some w3"
        by (auto simp: management_memory_query_def split: option.splits)
      have "\<exists>s3. (if verbose h \<noteq> 0 then vram_nvml_verbose env h d ?s2 else Some ?s2) = Some s3
              \<and> world s3 = w3"
      proof (cases "verbose h = 0")
        case True
        with dg show ?thesis
          by simp
      next
        case False
        with dg have "diagnostics env h d (world ?s2) = Some w3"
          by simp
        from vram_nvml_verbose_answers [OF this] False show ?thesis
          by simp
      qed
      then obtain s3 where
        c3: "(if verbose h \<noteq> 0 then vram_nvml_verbose env h d ?s2 else Some ?s2) = Some s3"
        and e3: "world s3 = w3"
        by blast
      from a sel True b mem ok dg have
        "management_memory_query env h i (world s) = Some (Inr (nvml_total m, nvml_free m), w3)"
        by (simp add: management_memory_query_def)
      with Suc.prems(1) e3 obtain rs' where
        rec: "ask_devices (management_memory_query env h) k (i + 1) (world s3)
                = Some (rs', out, w')"
        and rs: "rs = (nvml_total m, nvml_free m) # rs'"
        by (auto split: option.splits)
      from Suc.prems(2) lt have "unat (i + 1) + k = unat (mi_count ?resp)"
        by (simp add: word_inc_unat)
      from Suc.IH [OF rec this] obtain s' where
        "vram_nvml_loop env h (i + 1) ?resp s3
           = Some (?resp\<lparr>mi_total := mi_total ?resp + sum_list (map fst rs'),
                         mi_free := mi_free ?resp + sum_list (map snd rs'),
                         mi_err := (case out of None \<Rightarrow> mi_err ?resp
                                    | Some f \<Rightarrow> Some (memory_failure_text f))\<rparr>, s')"
        "world s' = w'"
        by blast
      with lt c1 c2 c3 True ok rs show ?thesis
        by (subst vram_nvml_loop.simps) (cases out; simp add: add.assoc cong: if_cong)
    qed
  qed
qed

lemma cuda_check_vram_answers:
  assumes valid: "handle h \<noteq> None"
    and ans: "memory_answers env h (world s) = Some (n, rs, out, w')"
  shows "\<exists>resp' s'. cuda_check_vram env h resp s = Some (resp', s') \<and> world s' = w'
       \<and> mi_count resp' = n
       \<and> mi_total resp' = sum_list (map fst rs) \<and> mi_free resp' = sum_list (map snd rs)
       \<and> mi_err resp' = map_option memory_failure_text out"
proof (cases "lib_t h")
  case LIBUNKNOWN
  with ans show ?thesis
    by (simp add: memory_answers_def)
next
  case LIBCUDART
  with ans obtain a where a: "cudaGetDeviceCount h = Some a"
    by (auto simp: memory_answers_def split: option.splits)
  obtain ret m w1 where cnt: "fn_cudaGetDeviceCount env a (world s) = ((ret, m), w1)"
    by (cases "fn_cudaGetDeviceCount env a (world s)") auto
  let ?s1 = "emit w1 (E_cudaGetDeviceCount a ret m) s"
  let ?resp = "resp\<lparr>mi_err := None, mi_count := n, mi_total := 0, mi_free := 0\<rparr>"
  from ans LIBCUDART a cnt have ok: "ret = CUDART_SUCCESS" and mn: "m = n"
    and ask: "ask_devices (runtime_memory_query env h) (unat n) 0 (world ?s1) = Some (rs, out, w')"
    by (auto simp: memory_answers_def split: option.splits if_splits)
  have c: "call_cudaGetDeviceCount env (cudaGetDeviceCount h) s = Some ((ret, n), ?s1)"
    by (simp add: call_cudaGetDeviceCount_def a cnt mn)
  have "unat (0::cint) + unat n = unat (mi_count ?resp)"
    by simp
  from vram_cudart_loop_answers [OF ask this] obtain s' where
    "vram_cudart_loop env h 0 ?resp ?s1
       = Some (?resp\<lparr>mi_total := mi_total ?resp + sum_list (map fst rs),
                     mi_free := mi_free ?resp + sum_list (map snd rs),
                     mi_err := (case out of None \<Rightarrow> mi_err ?resp
                                | Some f \<Rightarrow> Some (memory_failure_text f))\<rparr>, s')"
    "world s' = w'"
    by blast
  with LIBCUDART c ok show ?thesis
    by (cases out) (simp_all add: cuda_check_vram_def Let_def valid)
next
  case LIBNVIDIAML
  with ans obtain a where a: "nvmlDeviceGetCount_v2 h = Some a"
    by (auto simp: memory_answers_def split: option.splits)
  obtain ret m w1 where cnt: "fn_nvmlDeviceGetCount_v2 env a (world s) = ((ret, m), w1)"
    by (cases "fn_nvmlDeviceGetCount_v2 env a (world s)") auto
  let ?s1 = "emit w1 (E_nvmlDeviceGetCount_v2 a ret m) s"
  let ?resp = "resp\<lparr>mi_err := None, mi_count := n, mi_total := 0, mi_free := 0\<rparr>"
  from ans LIBNVIDIAML a cnt have ok: "ret = NVML_SUCCESS" and mn: "m = n"
    and ask: "ask_devices (management_memory_query env h) (unat n) 0 (world ?s1)
                = Some (rs, out, w')"
    by (auto simp: memory_answers_def split: option.splits if_splits)
  have c: "call_nvmlDeviceGetCount_v2 env (nvmlDeviceGetCount_v2 h) s = Some ((ret, n), ?s1)"
    by (simp add: call_nvmlDeviceGetCount_v2_def a cnt mn)
  have "unat (0::cint) + unat n = unat (mi_count ?resp)"
    by simp
  from vram_nvml_loop_answers [OF ask this] obtain s' where
    "vram_nvml_loop env h 0 ?resp ?s1
       = Some (?resp\<lparr>mi_total := mi_total ?resp + sum_list (map fst rs),
                     mi_free := mi_free ?resp + sum_list (map snd rs),
                     mi_err := (case out of None \<Rightarrow> mi_err ?resp
                                | Some f \<Rightarrow> Some (memory_failure_text f))\<rparr>, s')"
    "world s' = w'"
    by blast
  with LIBNVIDIAML c ok show ?thesis
    by (cases out) (simp_all add: cuda_check_vram_def Let_def valid)
qed

lemma memory_answers_shape:
  assumes ans: "memory_answers env h w = Some (n, rs, out, w')"
  shows "case out of None \<Rightarrow> length rs = unat n
         | Some f \<Rightarrow> length rs < unat n \<and> failed_at (of_nat (length rs)) f"
proof (cases "lib_t h")
  case LIBUNKNOWN
  with ans show ?thesis
    by (simp add: memory_answers_def)
next
  case LIBCUDART
  with ans obtain w1 where
    "ask_devices (runtime_memory_query env h) (unat n) 0 w1 = Some (rs, out, w')"
    by (auto simp: memory_answers_def split: option.splits prod.splits if_splits)
  then have "case out of None \<Rightarrow> length rs = unat n
      | Some f \<Rightarrow> length rs < unat n \<and> failed_at (0 + of_nat (length rs)) f"
    by (rule ask_devices_shape [rotated]) (erule runtime_memory_query_failed)
  then show ?thesis
    by (cases out) simp_all
next
  case LIBNVIDIAML
  with ans obtain w1 where
    "ask_devices (management_memory_query env h) (unat n) 0 w1 = Some (rs, out, w')"
    by (auto simp: memory_answers_def split: option.splits prod.splits if_splits)
  then have "case out of None \<Rightarrow> length rs = unat n
      | Some f \<Rightarrow> length rs < unat n \<and> failed_at (0 + of_nat (length rs)) f"
    by (rule ask_devices_shape [rotated]) (erule management_memory_query_failed)
  then show ?thesis
    by (cases out) simp_all
qed

section \<open>Runs of the capability reduction\<close>

lemma call_cudaSetDevice_SomeD:
  "call_cudaSetDevice env slot i s = Some (r, s1) \<Longrightarrow>
   \<exists>a. slot = Some a \<and> trace s1 = trace s @ [E_cudaSetDevice a i r]"
  by (auto simp: call_cudaSetDevice_def split: option.splits prod.splits)






lemma cc_update_rule:
  "(cc_major (cc_update resp mj mn), cc_minor (cc_update resp mj mn))
     = cc_rule (mj, mn) (cc_major resp, cc_minor resp)"
  by (simp add: cc_update_def cc_rule_def)

lemma cc_update_err: "cc_err (cc_update resp mj mn) = cc_err resp"
  by (simp add: cc_update_def)







text \<open>
  Each capability loop returns when the backend answers: the pair is the fold of the
  readings over the pair the loop started with, err is the text of the failure if there
  is one, and the world is where the answers left it.
\<close>

lemma cc_nvml_loop_answers:
  assumes "ask_devices (management_capability_query env h) k i (world s) = Some (rs, out, w')"
    and "unat i + k = unat devices"
  shows "\<exists>resp' s'. cc_nvml_loop env h devices i resp s = Some (resp', s') \<and> world s' = w'
       \<and> (cc_major resp', cc_minor resp') = fold cc_rule rs (cc_major resp, cc_minor resp)
       \<and> cc_err resp' = (case out of None \<Rightarrow> cc_err resp
                          | Some f \<Rightarrow> Some (capability_failure_text f))"
  using assms
proof (induction k arbitrary: i resp s rs)
  case 0
  then have "\<not> i < devices"
    by (simp add: word_less_nat_alt)
  with 0 show ?case
    by (subst cc_nvml_loop.simps) simp
next
  case (Suc k)
  from Suc.prems(2) have lt: "i < devices"
    by (simp add: word_less_nat_alt)
  from Suc.prems(1) obtain a where a: "nvmlDeviceGetHandleByIndex h = Some a"
    by (auto simp: management_capability_query_def split: option.splits)
  obtain ret d w1 where sel: "fn_nvmlDeviceGetHandleByIndex env a i (world s) = ((ret, d), w1)"
    by (cases "fn_nvmlDeviceGetHandleByIndex env a i (world s)") auto
  let ?s1 = "emit w1 (E_nvmlDeviceGetHandleByIndex a i ret d) s"
  have c1: "call_nvmlDeviceGetHandleByIndex env (nvmlDeviceGetHandleByIndex h) i s
      = Some ((ret, d), ?s1)"
    by (simp add: call_nvmlDeviceGetHandleByIndex_def a sel)
  show ?case
  proof (cases "ret = NVML_SUCCESS")
    case False
    with a sel have
      "management_capability_query env h i (world s) = Some (Inl (Handle_failed i ret), w1)"
      by (simp add: management_capability_query_def)
    with Suc.prems(1) have "rs = []" "out = Some (Handle_failed i ret)" "w' = w1"
      by simp_all
    with lt c1 False show ?thesis
      by (subst cc_nvml_loop.simps) simp
  next
    case True
    with Suc.prems(1) a sel obtain b where b: "nvmlDeviceGetCudaComputeCapability h = Some b"
      by (auto simp: management_capability_query_def split: option.splits)
    obtain ret2 mj mn w2 where
      q: "fn_nvmlDeviceGetCudaComputeCapability env b d w1 = ((ret2, mj, mn), w2)"
      by (cases "fn_nvmlDeviceGetCudaComputeCapability env b d w1") auto
    let ?s2 = "emit w2 (E_nvmlDeviceGetCudaComputeCapability b d ret2 mj mn) ?s1"
    have c2: "call_nvmlDeviceGetCudaComputeCapability env
                (nvmlDeviceGetCudaComputeCapability h) d ?s1 = Some ((ret2, mj, mn), ?s2)"
      by (simp add: call_nvmlDeviceGetCudaComputeCapability_def b q)
    show ?thesis
    proof (cases "ret2 = NVML_SUCCESS")
      case False
      with a sel True b q have
        "management_capability_query env h i (world s) = Some (Inl (Query_failed i ret2), w2)"
        by (simp add: management_capability_query_def)
      with Suc.prems(1) have "rs = []" "out = Some (Query_failed i ret2)" "w' = w2"
        by simp_all
      with lt c1 c2 True False show ?thesis
        by (subst cc_nvml_loop.simps) simp
    next
      case ok: True
      from a sel True b q ok have
        "management_capability_query env h i (world s) = Some (Inr (mj, mn), w2)"
        by (simp add: management_capability_query_def)
      with Suc.prems(1) obtain rs' where
        rec: "ask_devices (management_capability_query env h) k (i + 1) (world ?s2)
                = Some (rs', out, w')"
        and rs: "rs = (mj, mn) # rs'"
        by (auto split: option.splits)
      from Suc.prems(2) lt have "unat (i + 1) + k = unat devices"
        by (simp add: word_inc_unat)
      from Suc.IH [OF rec this, of "cc_update resp mj mn"] obtain resp' s' where
        "cc_nvml_loop env h devices (i + 1) (cc_update resp mj mn) ?s2 = Some (resp', s')"
        "world s' = w'"
        "(cc_major resp', cc_minor resp')
           = fold cc_rule rs' (cc_rule (mj, mn) (cc_major resp, cc_minor resp))"
        "cc_err resp' = (case out of None \<Rightarrow> cc_err resp
                         | Some f \<Rightarrow> Some (capability_failure_text f))"
        unfolding cc_update_rule cc_update_err by blast
      with lt c1 c2 True ok rs show ?thesis
        by (subst cc_nvml_loop.simps) simp
    qed
  qed
qed

lemma cc_cudart_loop_answers:
  assumes "ask_devices (runtime_capability_query env h) k i (world s) = Some (rs, out, w')"
    and "k = nat (sint devices - sint i)"
  shows "\<exists>resp' s'. cc_cudart_loop env h devices i resp s = Some (resp', s') \<and> world s' = w'
       \<and> (cc_major resp', cc_minor resp') = fold cc_rule rs (cc_major resp, cc_minor resp)
       \<and> cc_err resp' = (case out of None \<Rightarrow> cc_err resp
                          | Some f \<Rightarrow> Some (capability_failure_text f))"
  using assms
proof (induction k arbitrary: i resp s rs)
  case 0
  then have "\<not> i <s devices"
    by (simp add: word_sless_alt)
  with 0 show ?case
    by (subst cc_cudart_loop.simps) simp
next
  case (Suc k)
  from Suc.prems(2) have lt: "i <s devices"
    by (simp add: word_sless_alt)
  from Suc.prems(1) obtain a where a: "cudaSetDevice h = Some a"
    by (auto simp: runtime_capability_query_def split: option.splits)
  obtain ret w1 where sel: "fn_cudaSetDevice env a i (world s) = (ret, w1)"
    by (cases "fn_cudaSetDevice env a i (world s)")
  let ?s1 = "emit w1 (E_cudaSetDevice a i ret) s"
  have c1: "call_cudaSetDevice env (cudaSetDevice h) i s = Some (ret, ?s1)"
    by (simp add: call_cudaSetDevice_def a sel)
  show ?case
  proof (cases "ret = CUDART_SUCCESS")
    case False
    with a sel have
      "runtime_capability_query env h i (world s) = Some (Inl (Handle_failed i ret), w1)"
      by (simp add: runtime_capability_query_def)
    with Suc.prems(1) have "rs = []" "out = Some (Handle_failed i ret)" "w' = w1"
      by simp_all
    with lt c1 False show ?thesis
      by (subst cc_cudart_loop.simps) simp
  next
    case True
    with Suc.prems(1) a sel obtain b where b: "cudaDeviceGetAttribute h = Some b"
      by (auto simp: runtime_capability_query_def split: option.splits)
    obtain ret2 mj w2 where
      q2: "fn_cudaDeviceGetAttribute env b cudaDevAttrComputeCapabilityMajor i w1
             = ((ret2, mj), w2)"
      by (cases "fn_cudaDeviceGetAttribute env b cudaDevAttrComputeCapabilityMajor i w1") auto
    let ?s2 = "emit w2 (E_cudaDeviceGetAttribute b cudaDevAttrComputeCapabilityMajor i ret2 mj) ?s1"
    have c2: "call_cudaDeviceGetAttribute env (cudaDeviceGetAttribute h)
                cudaDevAttrComputeCapabilityMajor i ?s1 = Some ((ret2, mj), ?s2)"
      by (simp add: call_cudaDeviceGetAttribute_def b q2)
    show ?thesis
    proof (cases "ret2 = CUDART_SUCCESS")
      case False
      with a sel True b q2 have
        "runtime_capability_query env h i (world s) = Some (Inl (Query_failed i ret2), w2)"
        by (simp add: runtime_capability_query_def)
      with Suc.prems(1) have "rs = []" "out = Some (Query_failed i ret2)" "w' = w2"
        by simp_all
      with lt c1 c2 True False show ?thesis
        by (subst cc_cudart_loop.simps) simp
    next
      case ok2: True
      obtain ret3 mn w3 where
        q3: "fn_cudaDeviceGetAttribute env b cudaDevAttrComputeCapabilityMinor i w2
               = ((ret3, mn), w3)"
        by (cases "fn_cudaDeviceGetAttribute env b cudaDevAttrComputeCapabilityMinor i w2") auto
      let ?s3 = "emit w3 (E_cudaDeviceGetAttribute b cudaDevAttrComputeCapabilityMinor i ret3 mn)
                   ?s2"
      have c3: "call_cudaDeviceGetAttribute env (cudaDeviceGetAttribute h)
                  cudaDevAttrComputeCapabilityMinor i ?s2 = Some ((ret3, mn), ?s3)"
        by (simp add: call_cudaDeviceGetAttribute_def b q3)
      show ?thesis
      proof (cases "ret3 = CUDART_SUCCESS")
        case False
        with a sel True b q2 ok2 q3 have
          "runtime_capability_query env h i (world s) = Some (Inl (Query_failed i ret3), w3)"
          by (simp add: runtime_capability_query_def)
        with Suc.prems(1) have "rs = []" "out = Some (Query_failed i ret3)" "w' = w3"
          by simp_all
        with lt c1 c2 c3 True ok2 False show ?thesis
          by (subst cc_cudart_loop.simps) simp
      next
        case ok3: True
        from a sel True b q2 ok2 q3 ok3 have
          "runtime_capability_query env h i (world s) = Some (Inr (mj, mn), w3)"
          by (simp add: runtime_capability_query_def)
        with Suc.prems(1) obtain rs' where
          rec: "ask_devices (runtime_capability_query env h) k (i + 1) (world ?s3)
                  = Some (rs', out, w')"
          and rs: "rs = (mj, mn) # rs'"
          by (auto split: option.splits)
        from Suc.prems(2) lt have "k = nat (sint devices - sint (i + 1))"
          by (simp add: word_inc_sint)
        from Suc.IH [OF rec this, of "cc_update resp mj mn"] obtain resp' s' where
          "cc_cudart_loop env h devices (i + 1) (cc_update resp mj mn) ?s3 = Some (resp', s')"
          "world s' = w'"
          "(cc_major resp', cc_minor resp')
             = fold cc_rule rs' (cc_rule (mj, mn) (cc_major resp, cc_minor resp))"
          "cc_err resp' = (case out of None \<Rightarrow> cc_err resp
                           | Some f \<Rightarrow> Some (capability_failure_text f))"
          unfolding cc_update_rule cc_update_err by blast
        with lt c1 c2 c3 True ok2 ok3 rs show ?thesis
          by (subst cc_cudart_loop.simps) simp
      qed
    qed
  qed
qed

lemma cuda_compute_capability_answers:
  assumes valid: "handle h \<noteq> None"
    and ans: "capability_answers env h (world s) = Some (n, rs, out, w')"
  shows "\<exists>resp' s'. cuda_compute_capability env h resp s = Some (resp', s') \<and> world s' = w'
       \<and> (cc_major resp', cc_minor resp') = fold cc_rule rs (0, 0)
       \<and> cc_err resp' = map_option capability_failure_text out"
proof (cases "lib_t h")
  case LIBUNKNOWN
  with ans show ?thesis
    by (simp add: capability_answers_def)
next
  case LIBCUDART
  with ans obtain a where a: "cudaGetDeviceCount h = Some a"
    by (auto simp: capability_answers_def split: option.splits)
  obtain ret m w1 where cnt: "fn_cudaGetDeviceCount env a (world s) = ((ret, m), w1)"
    by (cases "fn_cudaGetDeviceCount env a (world s)") auto
  let ?s1 = "emit w1 (E_cudaGetDeviceCount a ret m) s"
  let ?resp = "resp\<lparr>cc_err := None, cc_major := 0, cc_minor := 0\<rparr>"
  from ans LIBCUDART a cnt have ok: "ret = CUDART_SUCCESS" and mn: "m = n"
    and ask: "ask_devices (runtime_capability_query env h) (nat (sint n)) 0 (world ?s1)
                = Some (rs, out, w')"
    by (auto simp: capability_answers_def split: option.splits if_splits)
  have c: "call_cudaGetDeviceCount env (cudaGetDeviceCount h) s = Some ((ret, n), ?s1)"
    by (simp add: call_cudaGetDeviceCount_def a cnt mn)
  have "nat (sint n) = nat (sint n - sint (0::cint))"
    by simp
  from cc_cudart_loop_answers [OF ask this, of ?resp] obtain resp' s' where
    "cc_cudart_loop env h n 0 ?resp ?s1 = Some (resp', s')" "world s' = w'"
    "(cc_major resp', cc_minor resp') = fold cc_rule rs (0, 0)"
    "cc_err resp' = (case out of None \<Rightarrow> None | Some f \<Rightarrow> Some (capability_failure_text f))"
    by (auto cong: option.case_cong)
  with LIBCUDART c ok show ?thesis
    by (cases out) (simp_all add: cuda_compute_capability_def Let_def valid)
next
  case LIBNVIDIAML
  with ans obtain a where a: "nvmlDeviceGetCount_v2 h = Some a"
    by (auto simp: capability_answers_def split: option.splits)
  obtain ret m w1 where cnt: "fn_nvmlDeviceGetCount_v2 env a (world s) = ((ret, m), w1)"
    by (cases "fn_nvmlDeviceGetCount_v2 env a (world s)") auto
  let ?s1 = "emit w1 (E_nvmlDeviceGetCount_v2 a ret m) s"
  let ?resp = "resp\<lparr>cc_err := None, cc_major := 0, cc_minor := 0\<rparr>"
  from ans LIBNVIDIAML a cnt have ok: "ret = NVML_SUCCESS" and mn: "m = n"
    and ask: "ask_devices (management_capability_query env h) (unat n) 0 (world ?s1)
                = Some (rs, out, w')"
    by (auto simp: capability_answers_def split: option.splits if_splits)
  have c: "call_nvmlDeviceGetCount_v2 env (nvmlDeviceGetCount_v2 h) s = Some ((ret, n), ?s1)"
    by (simp add: call_nvmlDeviceGetCount_v2_def a cnt mn)
  have "unat (0::cint) + unat n = unat n"
    by simp
  from cc_nvml_loop_answers [OF ask this, of ?resp] obtain resp' s' where
    "cc_nvml_loop env h n 0 ?resp ?s1 = Some (resp', s')" "world s' = w'"
    "(cc_major resp', cc_minor resp') = fold cc_rule rs (0, 0)"
    "cc_err resp' = (case out of None \<Rightarrow> None | Some f \<Rightarrow> Some (capability_failure_text f))"
    by (auto cong: option.case_cong)
  with LIBNVIDIAML c ok show ?thesis
    by (cases out) (simp_all add: cuda_compute_capability_def Let_def valid)
qed

lemma capability_answers_shape:
  assumes ans: "capability_answers env h w = Some (n, rs, out, w')"
  shows "case out of None \<Rightarrow> length rs = device_count (lib_t h) n
         | Some f \<Rightarrow> length rs < device_count (lib_t h) n
                      \<and> failed_at (of_nat (length rs)) f"
proof (cases "lib_t h")
  case LIBUNKNOWN
  with ans show ?thesis
    by (simp add: capability_answers_def)
next
  case LIBCUDART
  with ans obtain w1 where
    "ask_devices (runtime_capability_query env h) (nat (sint n)) 0 w1 = Some (rs, out, w')"
    by (auto simp: capability_answers_def split: option.splits prod.splits if_splits)
  then have "case out of None \<Rightarrow> length rs = nat (sint n)
      | Some f \<Rightarrow> length rs < nat (sint n) \<and> failed_at (0 + of_nat (length rs)) f"
    by (rule ask_devices_shape [rotated]) (erule runtime_capability_query_failed)
  with LIBCUDART show ?thesis
    by (cases out) (simp_all add: device_count_def)
next
  case LIBNVIDIAML
  with ans obtain w1 where
    "ask_devices (management_capability_query env h) (unat n) 0 w1 = Some (rs, out, w')"
    by (auto simp: capability_answers_def split: option.splits prod.splits if_splits)
  then have "case out of None \<Rightarrow> length rs = unat n
      | Some f \<Rightarrow> length rs < unat n \<and> failed_at (0 + of_nat (length rs)) f"
    by (rule ask_devices_shape [rotated]) (erule management_capability_query_failed)
  with LIBNVIDIAML show ?thesis
    by (cases out) (simp_all add: device_count_def)
qed

section \<open>Runs of cuda\_init\<close>

lemma store_slot_keeps:
  "handle (store_slot sl a ch) = handle ch" "lib_t (store_slot sl a ch) = lib_t ch"
  by (cases sl; simp)+

lemma init_driver_version_run:
  assumes "init_driver_version env resp s = Some (resp', s')"
  shows "\<exists>evs. trace s' = trace s @ evs
     \<and> (\<forall>a dev ret. E_cudaSetDevice a dev ret \<notin> set evs)
     \<and> (\<forall>a ret. E_nvmlInit_v2 a ret \<notin> set evs)
     \<and> (lib_t (ir_ch resp) = LIBCUDART \<longrightarrow> resp' = resp)
     \<and> (lib_t (ir_ch resp) \<noteq> LIBCUDART \<longrightarrow>
          ir_err resp' = Some (snprintf buflen
             ''unknown error: dlsym succeded but function pointers are unassigned'')
          \<and> handle (ir_ch resp') = None \<and> lib_t (ir_ch resp') = lib_t (ir_ch resp))"
proof (cases "lib_t (ir_ch resp)")
  case LIBUNKNOWN
  with assms show ?thesis
    by (auto simp: init_driver_version_def init_default_def do_UNLOAD_LIBRARY_def Let_def)
next
  case LIBCUDART
  with assms obtain r v a where
    "cudaDriverGetVersion (ir_ch resp) = Some a" "resp' = resp"
    "trace s' = trace s @ [E_cudaDriverGetVersion a r v]"
    by (auto simp: init_driver_version_def call_cudaDriverGetVersion_def
             split: option.splits prod.splits)
  with LIBCUDART show ?thesis
    by auto
next
  case LIBNVIDIAML
  with assms obtain r a where
    "nvmlSystemGetDriverVersion (ir_ch resp) = Some a"
    "trace s' = trace s @ [E_nvmlSystemGetDriverVersion a r, E_UNLOAD_LIBRARY None]"
    "ir_err resp' = Some (snprintf buflen
       ''unknown error: dlsym succeded but function pointers are unassigned'')"
    "handle (ir_ch resp') = None" "lib_t (ir_ch resp') = lib_t (ir_ch resp)"
    by (auto simp: init_driver_version_def call_nvmlSystemGetDriverVersion_def
          init_default_def do_UNLOAD_LIBRARY_def Let_def
          split: option.splits prod.splits)
  with LIBNVIDIAML show ?thesis
    by auto
qed

lemma call_nvmlInit_v2_SomeD:
  "call_nvmlInit_v2 env slot s = Some (r, s1) \<Longrightarrow>
   \<exists>a. slot = Some a \<and> trace s1 = trace s @ [E_nvmlInit_v2 a r]"
  by (auto simp: call_nvmlInit_v2_def split: option.splits prod.splits)

lemma trace_do_UNLOAD_LIBRARY:
  "trace (do_UNLOAD_LIBRARY env h s) = trace s @ [E_UNLOAD_LIBRARY h]"
  by (simp add: do_UNLOAD_LIBRARY_def)

lemma init_activate_run:
  assumes run: "init_activate env resp s = Some (resp', s')"
  shows "\<exists>evs. trace s' = trace s @ evs
     \<and> (\<forall>a dev ret. E_cudaSetDevice a dev ret \<in> set evs \<longrightarrow> ret \<noteq> CUDART_SUCCESS \<longrightarrow>
          ir_err resp' = Some (snprintf buflen (''cudart vram init failure: '' @ fmt_d ret))
          \<and> handle (ir_ch resp') = None \<and> lib_t (ir_ch resp') = lib_t (ir_ch resp)
          \<and> E_UNLOAD_LIBRARY (handle (ir_ch resp)) \<in> set evs
          \<and> (\<forall>a' r'. E_nvmlInit_v2 a' r' \<notin> set evs))
     \<and> ((\<exists>a' r'. E_nvmlInit_v2 a' r' \<in> set evs) \<longrightarrow> cudaSetDevice (ir_ch resp) = None)"
proof (cases "cudaSetDevice (ir_ch resp) = None")
  case False
  with run obtain r s1 where
    c: "call_cudaSetDevice env (cudaSetDevice (ir_ch resp)) 0 s = Some (r, s1)"
    by (auto simp: init_activate_def split: option.splits)
  from c obtain a where t: "trace s1 = trace s @ [E_cudaSetDevice a 0 r]"
    by (auto dest: call_cudaSetDevice_SomeD)
  show ?thesis
  proof (cases "r = CUDART_SUCCESS")
    case bad: False
    with run False c have
      "s' = do_UNLOAD_LIBRARY env (handle (ir_ch resp)) s1"
      "ir_err resp' = Some (snprintf buflen (''cudart vram init failure: '' @ fmt_d r))"
      "handle (ir_ch resp') = None" "lib_t (ir_ch resp') = lib_t (ir_ch resp)"
      by (auto simp: init_activate_def Let_def)
    with t show ?thesis
      by (intro exI [of _ "[E_cudaSetDevice a 0 r, E_UNLOAD_LIBRARY (handle (ir_ch resp))]"])
         (simp add: trace_do_UNLOAD_LIBRARY)
  next
    case ok: True
    with run False c have
      "init_driver_version env (resp\<lparr>ir_ch := (ir_ch resp)\<lparr>lib_t := LIBCUDART\<rparr>\<rparr>) s1
         = Some (resp', s')"
      by (auto simp: init_activate_def)
    from init_driver_version_run [OF this] obtain evs where
      "trace s' = trace s1 @ evs"
      "\<forall>a dev ret. E_cudaSetDevice a dev ret \<notin> set evs"
      "\<forall>a ret. E_nvmlInit_v2 a ret \<notin> set evs"
      by blast
    with t ok False show ?thesis
      by (intro exI [of _ "E_cudaSetDevice a 0 r # evs"]) auto
  qed
next
  case none: True
  show ?thesis
  proof (cases "nvmlInit_v2 (ir_ch resp) = None")
    case False
    with run none obtain r s1 where
      c: "call_nvmlInit_v2 env (nvmlInit_v2 (ir_ch resp)) s = Some (r, s1)"
      by (auto simp: init_activate_def split: option.splits)
    from c obtain a where t: "trace s1 = trace s @ [E_nvmlInit_v2 a r]"
      by (auto dest: call_nvmlInit_v2_SomeD)
    show ?thesis
    proof (cases "r = NVML_SUCCESS")
      case bad: False
      with run none False c have "s' = do_UNLOAD_LIBRARY env (handle (ir_ch resp)) s1"
        by (auto simp: init_activate_def Let_def)
      with t none show ?thesis
        by (intro exI [of _ "[E_nvmlInit_v2 a r, E_UNLOAD_LIBRARY (handle (ir_ch resp))]"])
           (simp add: trace_do_UNLOAD_LIBRARY)
    next
      case ok: True
      with run none False c have
        "init_driver_version env (resp\<lparr>ir_ch := (ir_ch resp)\<lparr>lib_t := LIBNVIDIAML\<rparr>\<rparr>) s1
           = Some (resp', s')"
        by (auto simp: init_activate_def)
      from init_driver_version_run [OF this] obtain evs where
        "trace s' = trace s1 @ evs"
        "\<forall>a dev ret. E_cudaSetDevice a dev ret \<notin> set evs"
        by blast
      with t none show ?thesis
        by (intro exI [of _ "E_nvmlInit_v2 a r # evs"]) auto
    qed
  next
    case True
    with run none have "init_driver_version env resp s = Some (resp', s')"
      by (simp add: init_activate_def)
    from init_driver_version_run [OF this] obtain evs where
      "trace s' = trace s @ evs"
      "\<forall>a dev ret. E_cudaSetDevice a dev ret \<notin> set evs"
      "\<forall>a ret. E_nvmlInit_v2 a ret \<notin> set evs"
      by blast
    with none show ?thesis
      by (intro exI [of _ evs]) auto
  qed
qed

lemma init_resolve_run:
  "init_resolve env l resp s = Some (resp', s') \<Longrightarrow>
   \<exists>resp1 s1 syms. trace s1 = trace s @ syms
     \<and> (\<forall>e \<in> set syms. \<exists>h name a. e = E_LOAD_SYMBOL h name a)
     \<and> init_activate env resp1 s1 = Some (resp', s')
     \<and> handle (ir_ch resp1) = handle (ir_ch resp) \<and> lib_t (ir_ch resp1) = lib_t (ir_ch resp)"
proof (induction l arbitrary: resp s)
  case Nil
  then show ?case
    by (intro exI [of _ resp] exI [of _ s] exI [of _ "[]"]) simp
next
  case (Cons entry l)
  obtain name p where entry: "entry = (name, p)"
    by (cases entry)
  obtain a s1 where ld: "do_LOAD_SYMBOL env (handle (ir_ch resp)) name s = (a, s1)"
    by (cases "do_LOAD_SYMBOL env (handle (ir_ch resp)) name s")
  then have t1: "trace s1 = trace s @ [E_LOAD_SYMBOL (handle (ir_ch resp)) name a]"
    by (auto simp: do_LOAD_SYMBOL_def split: prod.splits)
  from Cons.prems entry ld obtain sl where p: "p = Some sl"
    by (cases p) simp_all
  let ?resp = "resp\<lparr>ir_ch := store_slot sl a (ir_ch resp)\<rparr>"
  from Cons.prems entry ld p have "init_resolve env l ?resp s1 = Some (resp', s')"
    by (simp add: Let_def)
  from Cons.IH [OF this] obtain resp1 s2 syms where
    "trace s2 = trace s1 @ syms"
    "\<forall>e \<in> set syms. \<exists>h name a. e = E_LOAD_SYMBOL h name a"
    "init_activate env resp1 s2 = Some (resp', s')"
    "handle (ir_ch resp1) = handle (ir_ch ?resp)" "lib_t (ir_ch resp1) = lib_t (ir_ch ?resp)"
    by blast
  with t1 show ?case
    by (intro exI [of _ resp1] exI [of _ s2]
          exI [of _ "E_LOAD_SYMBOL (handle (ir_ch resp)) name a # syms"])
       (simp add: store_slot_keeps)
qed

lemma open_failure_run:
  assumes op: "LOAD_LIBRARY env path (world s) = (None, w1)"
    and de: "LOAD_ERR env w1 = (msg, w2)"
  shows "\<exists>resp' s'. cuda_init env path resp s = Some (resp', s')
     \<and> new_events s s' = [E_LOAD_LIBRARY path None, E_LOAD_ERR msg]
     \<and> ir_err resp' = Some (take 255
          (''Unable to load '' @ path @ '' library to query for Nvidia GPUs: '' @ msg))
     \<and> handle (ir_ch resp') = None \<and> lib_t (ir_ch resp') = LIBUNKNOWN"
  using op de
  by (simp add: cuda_init_def do_LOAD_LIBRARY_def do_LOAD_ERR_def emit_def new_events_def
        snprintf_def buflen_def)

lemma cuda_init_run:
  assumes run: "cuda_init env path resp s = Some (resp', s')"
  shows "\<exists>lr evs. trace s' = trace s @ E_LOAD_LIBRARY path lr # evs
     \<and> (lr = None \<longrightarrow> (\<exists>msg. evs = [E_LOAD_ERR msg]))
     \<and> (lr \<noteq> None \<longrightarrow>
          (\<exists>resp1 s1 syms acts. evs = syms @ acts
             \<and> (\<forall>e \<in> set syms. \<exists>h name a. e = E_LOAD_SYMBOL h name a)
             \<and> trace s' = trace s1 @ acts
             \<and> init_activate env resp1 s1 = Some (resp', s')
             \<and> handle (ir_ch resp1) = lr \<and> lib_t (ir_ch resp1) = LIBUNKNOWN))"
proof -
  obtain lr s1 where ld: "do_LOAD_LIBRARY env path s = (lr, s1)"
    by (cases "do_LOAD_LIBRARY env path s")
  then have t1: "trace s1 = trace s @ [E_LOAD_LIBRARY path lr]"
    by (auto simp: do_LOAD_LIBRARY_def split: prod.splits)
  show ?thesis
  proof (cases "lr = None")
    case True
    obtain msg s2 where le: "do_LOAD_ERR env s1 = (msg, s2)"
      by (cases "do_LOAD_ERR env s1")
    then have t2: "trace s2 = trace s1 @ [E_LOAD_ERR msg]"
      by (auto simp: do_LOAD_ERR_def split: prod.splits)
    from run ld True le have "s' = s2"
      by (simp add: cuda_init_def)
    with t1 t2 True show ?thesis
      by (intro exI [of _ lr] exI [of _ "[E_LOAD_ERR msg]"]) simp
  next
    case False
    let ?resp = "resp\<lparr>ir_err := None,
                  ir_ch := (ir_ch resp)\<lparr>lib_t := LIBUNKNOWN, handle := lr\<rparr>\<rparr>"
    from run ld False have "init_resolve env lookup_tbl ?resp s1 = Some (resp', s')"
      by (simp add: cuda_init_def)
    from init_resolve_run [OF this] obtain resp1 s2 syms where
      ts: "trace s2 = trace s1 @ syms" and
      sy: "\<forall>e \<in> set syms. \<exists>h name a. e = E_LOAD_SYMBOL h name a" and
      act: "init_activate env resp1 s2 = Some (resp', s')" and
      keep: "handle (ir_ch resp1) = lr" "lib_t (ir_ch resp1) = LIBUNKNOWN"
      by auto
    from init_activate_run [OF act] obtain acts where ta: "trace s' = trace s2 @ acts"
      by blast
    have "\<exists>resp1 s1 syms' acts'. syms @ acts = syms' @ acts'
             \<and> (\<forall>e \<in> set syms'. \<exists>h name a. e = E_LOAD_SYMBOL h name a)
             \<and> trace s' = trace s1 @ acts'
             \<and> init_activate env resp1 s1 = Some (resp', s')
             \<and> handle (ir_ch resp1) = lr \<and> lib_t (ir_ch resp1) = LIBUNKNOWN"
      using sy ta act keep
      by (intro exI [of _ resp1] exI [of _ s2] exI [of _ syms] exI [of _ acts]) simp
    moreover have "trace s' = trace s @ E_LOAD_LIBRARY path lr # syms @ acts"
      using t1 ts ta by simp
    ultimately show ?thesis
      using False by (intro exI [of _ lr] exI [of _ "syms @ acts"]) blast
  qed
qed

text \<open>
  In every run, the test after the store is false and the symbol loop goes on to the
  next entry, whatever address was resolved.
\<close>

lemma init_resolve_never_stops:
  "init_resolve env ((name, Some sl) # l) resp s =
     (case do_LOAD_SYMBOL env (handle (ir_ch resp)) name s of
        (a, s1) \<Rightarrow> init_resolve env l (resp\<lparr>ir_ch := store_slot sl a (ir_ch resp)\<rparr>) s1)"
  by (simp add: Let_def split: prod.splits)

text \<open>
  In every run, a management backend whose init call succeeds ends in the default case:
  once the tag is \<open>LIBNVIDIAML\<close>, the driver-version switch sets err and nulls the handle.
\<close>

lemma init_driver_version_nvml_fails:
  assumes "init_driver_version env resp s = Some (resp', s')"
    and "lib_t (ir_ch resp) = LIBNVIDIAML"
  shows "ir_err resp' \<noteq> None \<and> handle (ir_ch resp') = None"
  using init_driver_version_run [OF assms(1)] assms(2) by auto

text \<open>
  In every run of the activation, \<open>nvmlInit_v2\<close> is called only when the
  \<open>cudaSetDevice\<close> slot is null, and then \<open>cudaSetDevice\<close> is not called; the slot is
  the same after the activation as before.
\<close>

lemma init_activate_without_runtime:
  assumes run: "init_activate env resp s = Some (resp', s')"
  shows "(\<exists>b r. E_nvmlInit_v2 b r \<in> set (new_events s s')) \<longrightarrow>
         cudaSetDevice (ir_ch resp) = None
         \<and> (\<forall>a dev ret. E_cudaSetDevice a dev ret \<notin> set (new_events s s'))"
proof (cases "cudaSetDevice (ir_ch resp) = None")
  case False
  from init_activate_run [OF run] obtain evs where
    "trace s' = trace s @ evs"
    "(\<exists>a' r'. E_nvmlInit_v2 a' r' \<in> set evs) \<longrightarrow> cudaSetDevice (ir_ch resp) = None"
    by blast
  with False show ?thesis
    by (auto simp: new_events_def)
next
  case none: True
  show ?thesis
  proof (cases "nvmlInit_v2 (ir_ch resp) = None")
    case True
    with run none have "init_driver_version env resp s = Some (resp', s')"
      by (simp add: init_activate_def)
    from init_driver_version_run [OF this] obtain evs where
      "trace s' = trace s @ evs" "\<forall>a dev ret. E_cudaSetDevice a dev ret \<notin> set evs"
      by blast
    with none show ?thesis
      by (auto simp: new_events_def)
  next
    case False
    with run none obtain r s1 where
      c: "call_nvmlInit_v2 env (nvmlInit_v2 (ir_ch resp)) s = Some (r, s1)"
      by (auto simp: init_activate_def split: option.splits)
    from c obtain a where t: "trace s1 = trace s @ [E_nvmlInit_v2 a r]"
      by (auto dest: call_nvmlInit_v2_SomeD)
    show ?thesis
    proof (cases "r = NVML_SUCCESS")
      case bad: False
      with run none False c have "s' = do_UNLOAD_LIBRARY env (handle (ir_ch resp)) s1"
        by (auto simp: init_activate_def Let_def)
      with t none show ?thesis
        by (simp add: new_events_def trace_do_UNLOAD_LIBRARY)
    next
      case ok: True
      with run none False c have
        "init_driver_version env (resp\<lparr>ir_ch := (ir_ch resp)\<lparr>lib_t := LIBNVIDIAML\<rparr>\<rparr>) s1
           = Some (resp', s')"
        by (auto simp: init_activate_def)
      from init_driver_version_run [OF this] obtain evs where
        "trace s' = trace s1 @ evs" "\<forall>a dev ret. E_cudaSetDevice a dev ret \<notin> set evs"
        by blast
      with t none show ?thesis
        by (auto simp: new_events_def)
    qed
  qed
qed

lemma init_activate_slot:
  assumes run: "init_activate env resp s = Some (resp', s')"
  shows "cudaSetDevice (ir_ch resp') = cudaSetDevice (ir_ch resp)"
  using run
  by (auto simp: init_activate_def init_driver_version_def init_default_def Let_def
           split: if_splits option.splits prod.splits cudaLibraryType.splits)

text \<open>
  When the library opens and the runtime vocabulary activates, \<open>cuda_init\<close> returns
  the handle the loader and the runtime left, with err NULL.
\<close>

lemma resolve_answers_keeps:
  "resolve_answers env lib l ch w = Some (ch1, w2) \<Longrightarrow>
   handle ch1 = handle ch \<and> lib_t ch1 = lib_t ch"
proof (induction l arbitrary: ch w)
  case Nil
  then show ?case
    by simp
next
  case (Cons entry l)
  obtain name p where entry: "entry = (name, p)"
    by (cases entry)
  from Cons.prems entry obtain sl where p: "p = Some sl"
    by (cases p) simp_all
  obtain a w1 where ld: "LOAD_SYMBOL env lib name w = (a, w1)"
    by (cases "LOAD_SYMBOL env lib name w")
  from Cons.prems entry p ld have
    "resolve_answers env lib l (store_slot sl a ch) w1 = Some (ch1, w2)"
    by simp
  from Cons.IH [OF this] show ?case
    by (simp add: store_slot_keeps)
qed

lemma init_resolve_answers:
  assumes "resolve_answers env (handle (ir_ch resp)) l (ir_ch resp) (world s) = Some (ch1, w2)"
  shows "\<exists>s2 syms. world s2 = w2 \<and> trace s2 = trace s @ syms
       \<and> (\<forall>e \<in> set syms. \<exists>h name a. e = E_LOAD_SYMBOL h name a)
       \<and> init_resolve env l resp s = init_activate env (resp\<lparr>ir_ch := ch1\<rparr>) s2"
  using assms
proof (induction l arbitrary: resp s)
  case Nil
  then show ?case
    by (intro exI [of _ s] exI [of _ "[]"]) auto
next
  case (Cons entry l)
  obtain name p where entry: "entry = (name, p)"
    by (cases entry)
  from Cons.prems entry obtain sl where p: "p = Some sl"
    by (cases p) simp_all
  obtain a w1 where ld: "LOAD_SYMBOL env (handle (ir_ch resp)) name (world s) = (a, w1)"
    by (cases "LOAD_SYMBOL env (handle (ir_ch resp)) name (world s)")
  let ?e = "E_LOAD_SYMBOL (handle (ir_ch resp)) name a"
  let ?s1 = "emit w1 ?e s"
  let ?resp = "resp\<lparr>ir_ch := store_slot sl a (ir_ch resp)\<rparr>"
  have d: "do_LOAD_SYMBOL env (handle (ir_ch resp)) name s = (a, ?s1)"
    by (simp add: do_LOAD_SYMBOL_def ld)
  from Cons.prems entry p ld have
    "resolve_answers env (handle (ir_ch ?resp)) l (ir_ch ?resp) (world ?s1) = Some (ch1, w2)"
    by (simp add: store_slot_keeps)
  from Cons.IH [OF this] obtain s2 syms where
    "world s2 = w2" "trace s2 = trace ?s1 @ syms"
    "\<forall>e \<in> set syms. \<exists>h name a. e = E_LOAD_SYMBOL h name a"
    "init_resolve env l ?resp ?s1 = init_activate env (?resp\<lparr>ir_ch := ch1\<rparr>) s2"
    by blast
  with entry p d show ?case
    by (intro exI [of _ s2] exI [of _ "?e # syms"]) (simp add: Let_def)
qed

lemma cuda_init_answers:
  assumes act: "runtime_activation env path (ir_ch resp) (world s) = Some (ch, w')"
  shows "\<exists>resp' s'. cuda_init env path resp s = Some (resp', s') \<and> world s' = w'
       \<and> ir_err resp' = None \<and> ir_ch resp' = ch"
proof -
  from act obtain lib w1 where op: "LOAD_LIBRARY env path (world s) = (Some lib, w1)"
    by (auto simp: runtime_activation_def split: prod.splits option.splits)
  let ?s1 = "emit w1 (E_LOAD_LIBRARY path (Some lib)) s"
  let ?resp = "resp\<lparr>ir_err := None,
                ir_ch := (ir_ch resp)\<lparr>lib_t := LIBUNKNOWN, handle := Some lib\<rparr>\<rparr>"
  have d: "do_LOAD_LIBRARY env path s = (Some lib, ?s1)"
    by (simp add: do_LOAD_LIBRARY_def op)
  from act op obtain ch1 w2 a ret w3 b where
    res: "resolve_answers env (Some lib) lookup_tbl
            ((ir_ch resp)\<lparr>lib_t := LIBUNKNOWN, handle := Some lib\<rparr>) w1 = Some (ch1, w2)" and
    a: "cudaSetDevice ch1 = Some a" and
    sel: "fn_cudaSetDevice env a 0 w2 = (ret, w3)" and
    ok: "ret = CUDART_SUCCESS" and
    b: "cudaDriverGetVersion ch1 = Some b" and
    ch: "ch = ch1\<lparr>lib_t := LIBCUDART\<rparr>" and
    w': "w' = snd (fn_cudaDriverGetVersion env b w3)"
    by (auto simp: runtime_activation_def split: prod.splits option.splits if_splits)
  from res have
    "resolve_answers env (handle (ir_ch ?resp)) lookup_tbl (ir_ch ?resp) (world ?s1)
       = Some (ch1, w2)"
    by simp
  from init_resolve_answers [OF this] obtain s2 where
    w2: "world s2 = w2" and
    rs: "init_resolve env lookup_tbl ?resp ?s1 = init_activate env (?resp\<lparr>ir_ch := ch1\<rparr>) s2"
    by blast
  let ?s3 = "emit w3 (E_cudaSetDevice a 0 ret) s2"
  have c1: "call_cudaSetDevice env (Some a) 0 s2 = Some (ret, ?s3)"
    by (simp add: call_cudaSetDevice_def w2 sel)
  obtain r v w4 where dv: "fn_cudaDriverGetVersion env b w3 = ((r, v), w4)"
    by (cases "fn_cudaDriverGetVersion env b w3") auto
  let ?s4 = "emit w4 (E_cudaDriverGetVersion b r v) ?s3"
  have c2: "call_cudaDriverGetVersion env (Some b) ?s3 = Some ((r, v), ?s4)"
    by (simp add: call_cudaDriverGetVersion_def dv)
  have "init_activate env (?resp\<lparr>ir_ch := ch1\<rparr>) s2
      = Some (?resp\<lparr>ir_ch := ch1\<lparr>lib_t := LIBCUDART\<rparr>\<rparr>, ?s4)"
    using a b c1 c2 ok by (simp add: init_activate_def init_driver_version_def)
  with rs d ch w' dv show ?thesis
    by (simp add: cuda_init_def)
qed

text \<open>
  When the library opens and the call through the resolved \<open>cudaSetDevice\<close> fails for
  device 0, \<open>cuda_init\<close> returns, the call is in the trace and the library is released.
\<close>

lemma cuda_init_select_failure:
  assumes op: "LOAD_LIBRARY env path (world s) = (Some lib, w1)"
    and res: "resolve_answers env (Some lib) lookup_tbl
                ((ir_ch resp)\<lparr>lib_t := LIBUNKNOWN, handle := Some lib\<rparr>) w1 = Some (ch1, w2)"
    and a: "cudaSetDevice ch1 = Some a"
    and sel: "fn_cudaSetDevice env a 0 w2 = (ret, w3)"
    and fail: "ret \<noteq> CUDART_SUCCESS"
  shows "\<exists>resp' s'. cuda_init env path resp s = Some (resp', s')
       \<and> world s' = UNLOAD_LIBRARY env (Some lib) w3
       \<and> E_cudaSetDevice a 0 ret \<in> set (new_events s s')"
proof -
  let ?s1 = "emit w1 (E_LOAD_LIBRARY path (Some lib)) s"
  let ?resp = "resp\<lparr>ir_err := None,
                ir_ch := (ir_ch resp)\<lparr>lib_t := LIBUNKNOWN, handle := Some lib\<rparr>\<rparr>"
  have d: "do_LOAD_LIBRARY env path s = (Some lib, ?s1)"
    by (simp add: do_LOAD_LIBRARY_def op)
  from res have
    "resolve_answers env (handle (ir_ch ?resp)) lookup_tbl (ir_ch ?resp) (world ?s1)
       = Some (ch1, w2)"
    by simp
  from init_resolve_answers [OF this] obtain s2 syms where
    w2: "world s2 = w2" and t2: "trace s2 = trace ?s1 @ syms" and
    rs: "init_resolve env lookup_tbl ?resp ?s1 = init_activate env (?resp\<lparr>ir_ch := ch1\<rparr>) s2"
    by blast
  from resolve_answers_keeps [OF res] have h1: "handle ch1 = Some lib"
    by simp
  let ?s3 = "emit w3 (E_cudaSetDevice a 0 ret) s2"
  let ?s4 = "do_UNLOAD_LIBRARY env (Some lib) ?s3"
  have c1: "call_cudaSetDevice env (Some a) 0 s2 = Some (ret, ?s3)"
    by (simp add: call_cudaSetDevice_def w2 sel)
  have act: "init_activate env (?resp\<lparr>ir_ch := ch1\<rparr>) s2
      = Some (?resp\<lparr>ir_ch := ch1\<lparr>handle := None\<rparr>,
                     ir_err := Some (snprintf buflen
                       (''cudart vram init failure: '' @ fmt_d ret))\<rparr>, ?s4)"
    using a c1 fail h1 by (simp add: init_activate_def Let_def)
  have "trace ?s4 = trace s @ E_LOAD_LIBRARY path (Some lib) # syms
      @ [E_cudaSetDevice a 0 ret, E_UNLOAD_LIBRARY (Some lib)]"
    by (simp add: trace_do_UNLOAD_LIBRARY t2)
  then have ev: "E_cudaSetDevice a 0 ret \<in> set (new_events s ?s4)"
    by (simp add: new_events_def)
  have w4: "world ?s4 = UNLOAD_LIBRARY env (Some lib) w3"
    by (simp add: do_UNLOAD_LIBRARY_def)
  from rs d act have "cuda_init env path resp s
      = Some (?resp\<lparr>ir_ch := ch1\<lparr>handle := None\<rparr>,
                     ir_err := Some (snprintf buflen
                       (''cudart vram init failure: '' @ fmt_d ret))\<rparr>, ?s4)"
    by (simp add: cuda_init_def)
  with ev w4 show ?thesis
    by blast
qed

section \<open>Concrete runs\<close>

lemma new_events_eq: "trace s' = trace s @ evs \<Longrightarrow> new_events s s' = evs"
  by (simp add: new_events_def)

lemma unat_sum_list:
  "unat (sum_list (ws :: 64 word list)) = sum_list (map unat ws) mod 2 ^ 64"
  by (induction ws) (simp_all add: unat_word_ariths mod_add_right_eq)

lemma digit_char_simps:
  "digit_char 0 = CHR ''0''" "digit_char (Suc 0) = CHR ''1''" "digit_char 2 = CHR ''2''"
  "digit_char 3 = CHR ''3''" "digit_char 4 = CHR ''4''" "digit_char 5 = CHR ''5''"
  "digit_char 6 = CHR ''6''" "digit_char 7 = CHR ''7''" "digit_char 8 = CHR ''8''"
  "digit_char 9 = CHR ''9''"
  by code_simp+

text \<open>The equations that evaluate a run against a synthetic backend.\<close>

lemmas fake_run =
  fake_env_def full_handle_def s0_def stale_mem_def stale_cc_def emit_def
  CUDART_SUCCESS_def NVML_SUCCESS_def buflen_def snprintf_def fmt_d_def show_int_def
  digit_char_simps new_events_def
  call_cudaGetDeviceCount_def call_cudaSetDevice_def call_cudaMemGetInfo_def
  call_cudaDeviceGetAttribute_def call_nvmlDeviceGetCount_v2_def
  call_nvmlDeviceGetHandleByIndex_def call_nvmlDeviceGetMemoryInfo_def
  call_nvmlDeviceGetCudaComputeCapability_def

text \<open>The runs of \<open>cuda_init\<close> against these libraries.\<close>

lemma run_runtime_down:
  "cuda_init (fake_env lib_runtime_down) ''libcudart.so'' stale_init s0
     = Some (\<lparr>ir_err = Some ''cudart vram init failure: 5'',
               ir_ch = (full_handle LIBUNKNOWN)
                 \<lparr>handle := None,
                  nvmlInit_v2 := Some 1, nvmlShutdown := Some 1,
                  nvmlDeviceGetHandleByIndex := Some 1, nvmlDeviceGetMemoryInfo := Some 1,
                  nvmlDeviceGetCount_v2 := Some 1,
                  nvmlDeviceGetCudaComputeCapability := Some 1,
                  nvmlSystemGetDriverVersion := Some 1, nvmlDeviceGetName := Some 1,
                  nvmlDeviceGetSerial := Some 1, nvmlDeviceGetVbiosVersion := Some 1,
                  nvmlDeviceGetBoardPartNumber := Some 1, nvmlDeviceGetBrand := Some 1,
                  cudaSetDevice := Some 1, cudaDeviceReset := Some 1,
                  cudaMemGetInfo := Some 1, cudaGetDeviceCount := Some 1,
                  cudaDeviceGetAttribute := Some 1, cudaDriverGetVersion := Some 1\<rparr>\<rparr>,
             \<lparr>world = 0, trace =
               E_LOAD_LIBRARY ''libcudart.so'' (Some 1)
               # map (\<lambda>(name, p). E_LOAD_SYMBOL (Some 1) name (Some 1)) lookup_tbl
               @ [E_cudaSetDevice 1 0 5, E_UNLOAD_LIBRARY (Some 1)]\<rparr>)"
  by code_simp

lemma run_nvml_only:
  "cuda_init (fake_env lib_nvml_only) ''libnvidia-ml.so.1'' stale_init s0
     = Some (\<lparr>ir_err = Some
                 ''unknown error: dlsym succeded but function pointers are unassigned'',
               ir_ch = (full_handle LIBNVIDIAML)
                 \<lparr>handle := None,
                  nvmlInit_v2 := Some 1, nvmlShutdown := Some 1,
                  nvmlDeviceGetHandleByIndex := Some 1, nvmlDeviceGetMemoryInfo := Some 1,
                  nvmlDeviceGetCount_v2 := Some 1,
                  nvmlDeviceGetCudaComputeCapability := Some 1,
                  nvmlSystemGetDriverVersion := Some 1, nvmlDeviceGetName := Some 1,
                  nvmlDeviceGetSerial := Some 1, nvmlDeviceGetVbiosVersion := Some 1,
                  nvmlDeviceGetBoardPartNumber := Some 1, nvmlDeviceGetBrand := Some 1,
                  cudaSetDevice := None, cudaDeviceReset := None,
                  cudaMemGetInfo := None, cudaGetDeviceCount := None,
                  cudaDeviceGetAttribute := None, cudaDriverGetVersion := None\<rparr>\<rparr>,
             \<lparr>world = 0, trace =
               E_LOAD_LIBRARY ''libnvidia-ml.so.1'' (Some 1)
               # map (\<lambda>(name, p). E_LOAD_SYMBOL (Some 1) name (fk_sym lib_nvml_only name))
                   lookup_tbl
               @ [E_nvmlInit_v2 1 0, E_nvmlSystemGetDriverVersion 1 0,
                  E_UNLOAD_LIBRARY None]\<rparr>)"
  by code_simp

lemma run_no_brand:
  "cuda_init (fake_env lib_no_brand) ''libcudart.so'' stale_init s0
     = Some (\<lparr>ir_err = None,
               ir_ch = (full_handle LIBCUDART)
                 \<lparr>nvmlInit_v2 := Some 1, nvmlShutdown := Some 1,
                  nvmlDeviceGetHandleByIndex := Some 1, nvmlDeviceGetMemoryInfo := Some 1,
                  nvmlDeviceGetCount_v2 := Some 1,
                  nvmlDeviceGetCudaComputeCapability := Some 1,
                  nvmlSystemGetDriverVersion := Some 1, nvmlDeviceGetName := Some 1,
                  nvmlDeviceGetSerial := Some 1, nvmlDeviceGetVbiosVersion := Some 1,
                  nvmlDeviceGetBoardPartNumber := Some 1, nvmlDeviceGetBrand := None,
                  cudaSetDevice := Some 1, cudaDeviceReset := Some 1,
                  cudaMemGetInfo := Some 1, cudaGetDeviceCount := Some 1,
                  cudaDeviceGetAttribute := Some 1, cudaDriverGetVersion := Some 1\<rparr>\<rparr>,
             \<lparr>world = 0, trace =
               E_LOAD_LIBRARY ''libcudart.so'' (Some 1)
               # map (\<lambda>(name, p). E_LOAD_SYMBOL (Some 1) name (fk_sym lib_no_brand name))
                   lookup_tbl
               @ [E_cudaSetDevice 1 0 0, E_cudaDriverGetVersion 1 0 12020]\<rparr>)"
  by code_simp

section \<open>Claims\<close>

text \<open>
  C1 fails on the code for the management backend. The library exports the management
  vocabulary only, \<open>nvmlInit_v2\<close> returns success and the tag is set to \<open>LIBNVIDIAML\<close>;
  the driver-version query returns success too, and then case \<open>LIBNVIDIAML\<close> of the
  switch, which has no \<open>break\<close>, runs into \<open>default\<close>: the handle is nulled and err set.
\<close>

theorem cuda_init_management_backend_fails:
  "\<exists>resp' s'. cuda_init (fake_env lib_nvml_only) ''libnvidia-ml.so.1'' stale_init s0
       = Some (resp', s')
     \<and> trace s' = E_LOAD_LIBRARY ''libnvidia-ml.so.1'' (Some 1)
          # map (\<lambda>(name, p). E_LOAD_SYMBOL (Some 1) name (fk_sym lib_nvml_only name))
              lookup_tbl
          @ [E_nvmlInit_v2 1 0, E_nvmlSystemGetDriverVersion 1 0, E_UNLOAD_LIBRARY None]
     \<and> lib_t (ir_ch resp') = LIBNVIDIAML
     \<and> handle (ir_ch resp') = None
     \<and> ir_err resp'
         = Some ''unknown error: dlsym succeded but function pointers are unassigned''"
  using run_nvml_only by (simp add: full_handle_def)

text \<open>
  C2 fails on the code. The library lacks \<open>nvmlDeviceGetBrand\<close>: the loader resolves it to
  null, and \<open>cuda_init\<close> resolves the six entries after it, activates the runtime backend
  and returns with err NULL, a live library reference and that slot null.
\<close>

theorem cuda_init_ignores_unresolved_symbol:
  "\<exists>resp' s'. cuda_init (fake_env lib_no_brand) ''libcudart.so'' stale_init s0
       = Some (resp', s')
     \<and> fk_sym lib_no_brand ''nvmlDeviceGetBrand'' = None
     \<and> trace s' = E_LOAD_LIBRARY ''libcudart.so'' (Some 1)
          # map (\<lambda>(name, p). E_LOAD_SYMBOL (Some 1) name (fk_sym lib_no_brand name))
              lookup_tbl
          @ [E_cudaSetDevice 1 0 0, E_cudaDriverGetVersion 1 0 12020]
     \<and> nvmlDeviceGetBrand (ir_ch resp') = None
     \<and> lib_t (ir_ch resp') = LIBCUDART
     \<and> handle (ir_ch resp') = Some 1
     \<and> ir_err resp' = None"
  using run_no_brand by (simp add: full_handle_def lib_no_brand_def)




text \<open>
  C4, amended. In every run of \<open>cuda_init\<close> in which \<open>cudaSetDevice\<close> is called and returns a
  status other than success, the management vocabulary's init entry point is not
  attempted: the opened library is released and err is the runtime failure with that
  status, the library reference null and the backend tag unknown. In every run in which
  the management init entry point is attempted, the \<open>cudaSetDevice\<close> slot is null and
  \<open>cudaSetDevice\<close> is not called. And there are such runs: when the library opens, the
  loader resolves \<open>cudaSetDevice\<close> to an address and the call through it for device 0
  returns a status other than success, \<open>cuda_init\<close> returns, having made that call and
  no call of the management init entry point.
\<close>

theorem cuda_init_runtime_failure:
  "(cuda_init env path resp s = Some (resp', s') \<longrightarrow>
      (E_cudaSetDevice a dev ret \<in> set (new_events s s') \<and> ret \<noteq> CUDART_SUCCESS \<longrightarrow>
         ir_err resp' = Some (snprintf buflen (''cudart vram init failure: '' @ fmt_d ret))
         \<and> handle (ir_ch resp') = None \<and> lib_t (ir_ch resp') = LIBUNKNOWN
         \<and> (\<exists>lib. E_LOAD_LIBRARY path (Some lib) \<in> set (new_events s s')
                  \<and> E_UNLOAD_LIBRARY (Some lib) \<in> set (new_events s s'))
         \<and> (\<forall>a' r'. E_nvmlInit_v2 a' r' \<notin> set (new_events s s')))
      \<and> (E_nvmlInit_v2 b r \<in> set (new_events s s') \<longrightarrow>
         cudaSetDevice (ir_ch resp') = None
         \<and> (\<forall>a' dev' ret'. E_cudaSetDevice a' dev' ret' \<notin> set (new_events s s'))))
   \<and> (LOAD_LIBRARY env path (world s) = (Some lb, wa)
       \<and> resolve_answers env (Some lb) lookup_tbl
            ((ir_ch resp)\<lparr>lib_t := LIBUNKNOWN, handle := Some lb\<rparr>) wa = Some (chs, wb)
       \<and> cudaSetDevice chs = Some c \<and> fn_cudaSetDevice env c 0 wb = (st, wc)
       \<and> st \<noteq> CUDART_SUCCESS \<longrightarrow>
      (\<exists>rf sf. cuda_init env path resp s = Some (rf, sf)
         \<and> world sf = UNLOAD_LIBRARY env (Some lb) wc
         \<and> E_cudaSetDevice c 0 st \<in> set (new_events s sf)
         \<and> (\<forall>a' r'. E_nvmlInit_v2 a' r' \<notin> set (new_events s sf))
         \<and> ir_err rf = Some (snprintf buflen (''cudart vram init failure: '' @ fmt_d st))
         \<and> handle (ir_ch rf) = None \<and> lib_t (ir_ch rf) = LIBUNKNOWN))"
proof -
  have first: "ir_err resp' = Some (snprintf buflen (''cudart vram init failure: '' @ fmt_d ret))
       \<and> handle (ir_ch resp') = None \<and> lib_t (ir_ch resp') = LIBUNKNOWN
       \<and> (\<exists>lib. E_LOAD_LIBRARY path (Some lib) \<in> set (new_events s s')
                \<and> E_UNLOAD_LIBRARY (Some lib) \<in> set (new_events s s'))
       \<and> (\<forall>a' r'. E_nvmlInit_v2 a' r' \<notin> set (new_events s s'))"
    if run: "cuda_init env path resp s = Some (resp', s')"
      and sel: "E_cudaSetDevice a dev ret \<in> set (new_events s s')"
      and fail: "ret \<noteq> CUDART_SUCCESS"
    for resp' s' a dev ret
  proof -
    from cuda_init_run [OF run] obtain lr evs where
      tr: "trace s' = trace s @ E_LOAD_LIBRARY path lr # evs" and
      closed: "lr = None \<longrightarrow> (\<exists>msg. evs = [E_LOAD_ERR msg])" and
      opened: "lr \<noteq> None \<longrightarrow>
            (\<exists>resp1 s1 syms acts. evs = syms @ acts
               \<and> (\<forall>e \<in> set syms. \<exists>h name a. e = E_LOAD_SYMBOL h name a)
               \<and> trace s' = trace s1 @ acts
               \<and> init_activate env resp1 s1 = Some (resp', s')
               \<and> handle (ir_ch resp1) = lr \<and> lib_t (ir_ch resp1) = LIBUNKNOWN)"
      by blast
    have ne: "new_events s s' = E_LOAD_LIBRARY path lr # evs"
      using tr by (rule new_events_eq)
    from sel ne closed have "lr \<noteq> None"
      by auto
    then obtain lib where lib: "lr = Some lib"
      by auto
    from opened \<open>lr \<noteq> None\<close> obtain resp1 s1 syms acts where
      evs: "evs = syms @ acts" and
      sy: "\<forall>e \<in> set syms. \<exists>h name a. e = E_LOAD_SYMBOL h name a" and
      ta: "trace s' = trace s1 @ acts" and
      act: "init_activate env resp1 s1 = Some (resp', s')" and
      keep: "handle (ir_ch resp1) = lr" "lib_t (ir_ch resp1) = LIBUNKNOWN"
      by blast
    from init_activate_run [OF act] ta have
      fact: "\<forall>a dev ret. E_cudaSetDevice a dev ret \<in> set acts \<longrightarrow> ret \<noteq> CUDART_SUCCESS \<longrightarrow>
            ir_err resp' = Some (snprintf buflen (''cudart vram init failure: '' @ fmt_d ret))
            \<and> handle (ir_ch resp') = None \<and> lib_t (ir_ch resp') = lib_t (ir_ch resp1)
            \<and> E_UNLOAD_LIBRARY (handle (ir_ch resp1)) \<in> set acts
            \<and> (\<forall>a' r'. E_nvmlInit_v2 a' r' \<notin> set acts)"
      by auto
    from sel ne evs sy have "E_cudaSetDevice a dev ret \<in> set acts"
      by auto
    with fact fail have
      "ir_err resp' = Some (snprintf buflen (''cudart vram init failure: '' @ fmt_d ret))"
      "handle (ir_ch resp') = None" "lib_t (ir_ch resp') = lib_t (ir_ch resp1)"
      "E_UNLOAD_LIBRARY (handle (ir_ch resp1)) \<in> set acts"
      "\<forall>a' r'. E_nvmlInit_v2 a' r' \<notin> set acts"
      by blast+
    with keep lib sy show ?thesis
      unfolding ne evs by auto
  qed
  have second: "cudaSetDevice (ir_ch resp') = None
       \<and> (\<forall>a' dev' ret'. E_cudaSetDevice a' dev' ret' \<notin> set (new_events s s'))"
    if run: "cuda_init env path resp s = Some (resp', s')"
      and ini: "E_nvmlInit_v2 b r \<in> set (new_events s s')"
  proof -
    from cuda_init_run [OF run] obtain lr evs where
      tr: "trace s' = trace s @ E_LOAD_LIBRARY path lr # evs" and
      closed: "lr = None \<longrightarrow> (\<exists>msg. evs = [E_LOAD_ERR msg])" and
      opened: "lr \<noteq> None \<longrightarrow>
            (\<exists>resp1 s1 syms acts. evs = syms @ acts
               \<and> (\<forall>e \<in> set syms. \<exists>h name a. e = E_LOAD_SYMBOL h name a)
               \<and> trace s' = trace s1 @ acts
               \<and> init_activate env resp1 s1 = Some (resp', s')
               \<and> handle (ir_ch resp1) = lr \<and> lib_t (ir_ch resp1) = LIBUNKNOWN)"
      by blast
    have ne: "new_events s s' = E_LOAD_LIBRARY path lr # evs"
      using tr by (rule new_events_eq)
    from ini ne closed have "lr \<noteq> None"
      by auto
    with opened obtain resp1 s1 syms acts where
      evs: "evs = syms @ acts" and
      sy: "\<forall>e \<in> set syms. \<exists>h name a. e = E_LOAD_SYMBOL h name a" and
      ta: "trace s' = trace s1 @ acts" and
      act: "init_activate env resp1 s1 = Some (resp', s')"
      by blast
    from ini ne evs sy have ia: "E_nvmlInit_v2 b r \<in> set acts"
      by auto
    from ta have na: "new_events s1 s' = acts"
      by (rule new_events_eq)
    from init_activate_without_runtime [OF act] ia na have
      "cudaSetDevice (ir_ch resp1) = None" "\<forall>a' dev' ret'. E_cudaSetDevice a' dev' ret' \<notin> set acts"
      by auto
    with init_activate_slot [OF act] sy show ?thesis
      unfolding ne evs by auto
  qed
  have third: "\<exists>rf sf. cuda_init env path resp s = Some (rf, sf)
         \<and> world sf = UNLOAD_LIBRARY env (Some lb) wc
         \<and> E_cudaSetDevice c 0 st \<in> set (new_events s sf)
         \<and> (\<forall>a' r'. E_nvmlInit_v2 a' r' \<notin> set (new_events s sf))
         \<and> ir_err rf = Some (snprintf buflen (''cudart vram init failure: '' @ fmt_d st))
         \<and> handle (ir_ch rf) = None \<and> lib_t (ir_ch rf) = LIBUNKNOWN"
    if op: "LOAD_LIBRARY env path (world s) = (Some lb, wa)"
      and res: "resolve_answers env (Some lb) lookup_tbl
            ((ir_ch resp)\<lparr>lib_t := LIBUNKNOWN, handle := Some lb\<rparr>) wa = Some (chs, wb)"
      and slot: "cudaSetDevice chs = Some c"
      and sel: "fn_cudaSetDevice env c 0 wb = (st, wc)"
      and fail: "st \<noteq> CUDART_SUCCESS"
  proof -
    from cuda_init_select_failure [OF op res slot sel fail] obtain rf sf where
      run: "cuda_init env path resp s = Some (rf, sf)" and
      w: "world sf = UNLOAD_LIBRARY env (Some lb) wc" and
      ev: "E_cudaSetDevice c 0 st \<in> set (new_events s sf)"
      by blast
    from first [OF run ev fail] run w ev show ?thesis
      by blast
  qed
  from first second third show ?thesis
    by (intro conjI impI) blast+
qed

theorem cuda_init_runtime_failure_witness:
  "(\<exists>resp' s'. cuda_init (fake_env lib_runtime_down) ''libcudart.so'' stale_init s0
        = Some (resp', s')
      \<and> E_cudaSetDevice 1 0 5 \<in> set (new_events s0 s')
      \<and> ir_err resp' = Some ''cudart vram init failure: 5''
      \<and> handle (ir_ch resp') = None \<and> lib_t (ir_ch resp') = LIBUNKNOWN
      \<and> (\<forall>a' r'. E_nvmlInit_v2 a' r' \<notin> set (new_events s0 s')))
   \<and> (\<exists>resp' s'. cuda_init (fake_env lib_nvml_only) ''libnvidia-ml.so.1'' stale_init s0
        = Some (resp', s')
      \<and> E_nvmlInit_v2 1 0 \<in> set (new_events s0 s')
      \<and> cudaSetDevice (ir_ch resp') = None
      \<and> (\<forall>a' dev' ret'. E_cudaSetDevice a' dev' ret' \<notin> set (new_events s0 s')))
   \<and> (\<exists>ch1. resolve_answers (fake_env lib_runtime_down) (Some 1) lookup_tbl
          ((ir_ch stale_init)\<lparr>lib_t := LIBUNKNOWN, handle := Some 1\<rparr>) 0 = Some (ch1, 0)
      \<and> cudaSetDevice ch1 = Some 1
      \<and> fn_cudaSetDevice (fake_env lib_runtime_down) 1 0 0 = (5, 0)
      \<and> (\<exists>rf sf. cuda_init (fake_env lib_runtime_down) ''libcudart.so'' stale_init s0
              = Some (rf, sf)
            \<and> E_cudaSetDevice 1 0 5 \<in> set (new_events s0 sf)
            \<and> (\<forall>a' r'. E_nvmlInit_v2 a' r' \<notin> set (new_events s0 sf))
            \<and> ir_err rf = Some ''cudart vram init failure: 5''
            \<and> handle (ir_ch rf) = None \<and> lib_t (ir_ch rf) = LIBUNKNOWN))"
proof -
  obtain resp' s' where
    run: "cuda_init (fake_env lib_runtime_down) ''libcudart.so'' stale_init s0 = Some (resp', s')"
    and tr: "trace s' = E_LOAD_LIBRARY ''libcudart.so'' (Some 1)
               # map (\<lambda>(name, p). E_LOAD_SYMBOL (Some 1) name (Some 1)) lookup_tbl
               @ [E_cudaSetDevice 1 0 5, E_UNLOAD_LIBRARY (Some 1)]"
    and err: "ir_err resp' = Some ''cudart vram init failure: 5''"
    using run_runtime_down by simp
  have sel: "E_cudaSetDevice 1 0 5 \<in> set (new_events s0 s')"
    by (simp add: new_events_def s0_def tr)
  have fail: "(5::cint) \<noteq> CUDART_SUCCESS"
    by (simp add: CUDART_SUCCESS_def)
  from cuda_init_runtime_failure [where env = "fake_env lib_runtime_down"
      and path = "''libcudart.so''" and resp = stale_init and s = s0 and resp' = resp'
      and s' = s' and a = 1 and dev = 0 and ret = 5] run sel fail
  have "handle (ir_ch resp') = None \<and> lib_t (ir_ch resp') = LIBUNKNOWN
     \<and> (\<forall>a' r'. E_nvmlInit_v2 a' r' \<notin> set (new_events s0 s'))"
    by blast
  with run sel err have one:
    "\<exists>resp' s'. cuda_init (fake_env lib_runtime_down) ''libcudart.so'' stale_init s0
        = Some (resp', s')
      \<and> E_cudaSetDevice 1 0 5 \<in> set (new_events s0 s')
      \<and> ir_err resp' = Some ''cudart vram init failure: 5''
      \<and> handle (ir_ch resp') = None \<and> lib_t (ir_ch resp') = LIBUNKNOWN
      \<and> (\<forall>a' r'. E_nvmlInit_v2 a' r' \<notin> set (new_events s0 s'))"
    by blast
  obtain resp2 s2 where
    run2: "cuda_init (fake_env lib_nvml_only) ''libnvidia-ml.so.1'' stale_init s0
             = Some (resp2, s2)"
    and tr2: "trace s2 = E_LOAD_LIBRARY ''libnvidia-ml.so.1'' (Some 1)
               # map (\<lambda>(name, p). E_LOAD_SYMBOL (Some 1) name (fk_sym lib_nvml_only name))
                   lookup_tbl
               @ [E_nvmlInit_v2 1 0, E_nvmlSystemGetDriverVersion 1 0, E_UNLOAD_LIBRARY None]"
    using run_nvml_only by simp
  have ini: "E_nvmlInit_v2 1 0 \<in> set (new_events s0 s2)"
    by (simp add: new_events_def s0_def tr2)
  from cuda_init_runtime_failure [where env = "fake_env lib_nvml_only"
      and path = "''libnvidia-ml.so.1''" and resp = stale_init and s = s0 and resp' = resp2
      and s' = s2 and b = 1 and r = 0] run2 ini
  have "cudaSetDevice (ir_ch resp2) = None
     \<and> (\<forall>a' dev' ret'. E_cudaSetDevice a' dev' ret' \<notin> set (new_events s0 s2))"
    by blast
  with run2 ini have two:
    "\<exists>resp' s'. cuda_init (fake_env lib_nvml_only) ''libnvidia-ml.so.1'' stale_init s0
        = Some (resp', s')
      \<and> E_nvmlInit_v2 1 0 \<in> set (new_events s0 s')
      \<and> cudaSetDevice (ir_ch resp') = None
      \<and> (\<forall>a' dev' ret'. E_cudaSetDevice a' dev' ret' \<notin> set (new_events s0 s'))"
    by blast
  have "map_option (\<lambda>(ch, w). (cudaSetDevice ch, w))
      (resolve_answers (fake_env lib_runtime_down) (Some 1) lookup_tbl
         ((ir_ch stale_init)\<lparr>lib_t := LIBUNKNOWN, handle := Some 1\<rparr>) 0) = Some (Some 1, 0)"
    by code_simp
  then obtain ch1 where
    res: "resolve_answers (fake_env lib_runtime_down) (Some 1) lookup_tbl
            ((ir_ch stale_init)\<lparr>lib_t := LIBUNKNOWN, handle := Some 1\<rparr>) 0 = Some (ch1, 0)"
    and slot: "cudaSetDevice ch1 = Some 1"
    by auto
  have op: "LOAD_LIBRARY (fake_env lib_runtime_down) ''libcudart.so'' (world s0) = (Some 1, 0)"
    and st: "fn_cudaSetDevice (fake_env lib_runtime_down) 1 0 0 = (5, 0)"
    by (simp_all add: fake_env_def lib_runtime_down_def fleet2_def s0_def)
  have msg: "snprintf buflen (''cudart vram init failure: '' @ fmt_d 5)
      = ''cudart vram init failure: 5''"
    by code_simp
  from cuda_init_runtime_failure [where env = "fake_env lib_runtime_down"
      and path = "''libcudart.so''" and resp = stale_init and s = s0 and lb = 1 and wa = 0
      and chs = ch1 and wb = 0 and c = 1 and st = 5 and wc = 0] op res slot st fail
  have "\<exists>rf sf. cuda_init (fake_env lib_runtime_down) ''libcudart.so'' stale_init s0
              = Some (rf, sf)
            \<and> E_cudaSetDevice 1 0 5 \<in> set (new_events s0 sf)
            \<and> (\<forall>a' r'. E_nvmlInit_v2 a' r' \<notin> set (new_events s0 sf))
            \<and> ir_err rf = Some ''cudart vram init failure: 5''
            \<and> handle (ir_ch rf) = None \<and> lib_t (ir_ch rf) = LIBUNKNOWN"
    unfolding msg by blast
  with res slot st have three:
    "\<exists>ch1. resolve_answers (fake_env lib_runtime_down) (Some 1) lookup_tbl
          ((ir_ch stale_init)\<lparr>lib_t := LIBUNKNOWN, handle := Some 1\<rparr>) 0 = Some (ch1, 0)
      \<and> cudaSetDevice ch1 = Some 1
      \<and> fn_cudaSetDevice (fake_env lib_runtime_down) 1 0 0 = (5, 0)
      \<and> (\<exists>rf sf. cuda_init (fake_env lib_runtime_down) ''libcudart.so'' stale_init s0
              = Some (rf, sf)
            \<and> E_cudaSetDevice 1 0 5 \<in> set (new_events s0 sf)
            \<and> (\<forall>a' r'. E_nvmlInit_v2 a' r' \<notin> set (new_events s0 sf))
            \<and> ir_err rf = Some ''cudart vram init failure: 5''
            \<and> handle (ir_ch rf) = None \<and> lib_t (ir_ch rf) = LIBUNKNOWN)"
    by blast
  from one two three show ?thesis
    by blast
qed

text \<open>
  C4 as stated fails: every symbol resolves, selecting device 0 returns status 5, the
  management init entry point is resolved and would return success, and it is never
  called; the tag stays unknown and err is set.
\<close>

theorem cuda_init_no_fallback_after_runtime_failure:
  "\<exists>resp' s'. cuda_init (fake_env lib_runtime_down) ''libcudart.so'' stale_init s0
       = Some (resp', s')
     \<and> nvmlInit_v2 (ir_ch resp') = Some 1
     \<and> fn_nvmlInit_v2 (fake_env lib_runtime_down) 1 (world s') = (NVML_SUCCESS, world s')
     \<and> trace s' = E_LOAD_LIBRARY ''libcudart.so'' (Some 1)
               # map (\<lambda>(name, p). E_LOAD_SYMBOL (Some 1) name (Some 1)) lookup_tbl
               @ [E_cudaSetDevice 1 0 5, E_UNLOAD_LIBRARY (Some 1)]
     \<and> lib_t (ir_ch resp') = LIBUNKNOWN
     \<and> ir_err resp' = Some ''cudart vram init failure: 5''"
proof -
  obtain resp' s' where
    run: "cuda_init (fake_env lib_runtime_down) ''libcudart.so'' stale_init s0 = Some (resp', s')"
    and tr: "trace s' = E_LOAD_LIBRARY ''libcudart.so'' (Some 1)
               # map (\<lambda>(name, p). E_LOAD_SYMBOL (Some 1) name (Some 1)) lookup_tbl
               @ [E_cudaSetDevice 1 0 5, E_UNLOAD_LIBRARY (Some 1)]"
    and res: "nvmlInit_v2 (ir_ch resp') = Some 1" "lib_t (ir_ch resp') = LIBUNKNOWN"
      "ir_err resp' = Some ''cudart vram init failure: 5''"
    using run_runtime_down by (simp add: full_handle_def)
  have "fn_nvmlInit_v2 (fake_env lib_runtime_down) 1 (world s') = (NVML_SUCCESS, world s')"
    by (simp add: fake_env_def lib_runtime_down_def fleet2_def NVML_SUCCESS_def)
  with run tr res show ?thesis
    by blast
qed

text \<open>
  C5. On a valid handle, when the active backend reports its count \<open>n\<close> with success and
  its devices, asked in order, return the readings \<open>rs\<close>, \<open>cuda_compute_capability\<close>
  returns, and the pair it returns is the fold of \<open>rs\<close>, from (0, 0) and under the spec's
  rule. When every device answered, err is NULL and \<open>rs\<close> holds the reading of each of
  the \<open>n\<close> devices; when a step failed, err is set and \<open>rs\<close> holds the readings before
  it; when the backend reports zero devices the result is (0, 0) with err NULL.
\<close>

theorem cuda_compute_capability_fold:
  assumes valid: "handle h \<noteq> None"
    and ans: "capability_answers env h (world s) = Some (n, rs, out, w')"
  shows "\<exists>resp' s'. cuda_compute_capability env h resp s = Some (resp', s') \<and> world s' = w'
       \<and> (cc_major resp', cc_minor resp') = fold cc_rule rs (0, 0)
       \<and> (out = None \<longrightarrow> cc_err resp' = None \<and> length rs = device_count (lib_t h) n)
       \<and> (out \<noteq> None \<longrightarrow> cc_err resp' \<noteq> None \<and> length rs < device_count (lib_t h) n)
       \<and> (n = 0 \<longrightarrow> rs = [] \<and> cc_err resp' = None \<and> cc_major resp' = 0 \<and> cc_minor resp' = 0)"
proof -
  from cuda_compute_capability_answers [OF valid ans, of resp] obtain resp' s' where
    run: "cuda_compute_capability env h resp s = Some (resp', s')" "world s' = w'" and
    fold: "(cc_major resp', cc_minor resp') = fold cc_rule rs (0, 0)" and
    err: "cc_err resp' = map_option capability_failure_text out"
    by blast
  note shape = capability_answers_shape [OF ans]
  have full: "cc_err resp' = None \<and> length rs = device_count (lib_t h) n" if "out = None"
    using shape err unfolding that by simp
  have part: "cc_err resp' \<noteq> None \<and> length rs < device_count (lib_t h) n" if "out \<noteq> None"
  proof -
    from that obtain f where "out = Some f"
      by (cases out) simp_all
    with shape err show ?thesis
      by simp
  qed
  have zero: "rs = [] \<and> cc_err resp' = None \<and> cc_major resp' = 0 \<and> cc_minor resp' = 0"
    if "n = 0"
  proof -
    from that have "device_count (lib_t h) n = 0"
      by (simp add: device_count_def split: cudaLibraryType.splits)
    with part have "out = None"
      by (cases out) simp_all
    with full \<open>device_count (lib_t h) n = 0\<close> have "rs = []" "cc_err resp' = None"
      by simp_all
    with fold show ?thesis
      by simp
  qed
  show ?thesis
    using run fold full part zero
    by (intro exI [of _ resp'] exI [of _ s']) simp
qed

theorem cuda_compute_capability_fold_witness:
  "(\<exists>resp' s'. cuda_compute_capability (fake_env fleet3) (full_handle LIBCUDART) stale_cc s0
        = Some (resp', s')
      \<and> fold cc_rule [(8, 6), (7, 5), (8, 0)] (0, 0) = (7, 5)
      \<and> cc_major resp' = 7 \<and> cc_minor resp' = 5 \<and> cc_err resp' = None)
   \<and> (\<exists>resp' s'. cuda_compute_capability (fake_env fleet3) (full_handle LIBNVIDIAML) stale_cc s0
        = Some (resp', s')
      \<and> cc_major resp' = 7 \<and> cc_minor resp' = 5 \<and> cc_err resp' = None)
   \<and> (\<exists>resp' s'. cuda_compute_capability (fake_env fleet_empty) (full_handle LIBNVIDIAML)
          stale_cc s0 = Some (resp', s')
      \<and> cc_major resp' = 0 \<and> cc_minor resp' = 0 \<and> cc_err resp' = None)
   \<and> (\<exists>resp' s'. cuda_compute_capability (fake_env fleet2_lost) (full_handle LIBCUDART)
          stale_cc s0 = Some (resp', s')
      \<and> cc_major resp' = 8 \<and> cc_minor resp' = 6 \<and> cc_err resp' \<noteq> None)"
proof -
  let ?rs = "[(8, 6), (7, 5), (8, 0)] :: (cint \<times> cint) list"
  have v: "handle (full_handle LIBCUDART) \<noteq> None" "handle (full_handle LIBNVIDIAML) \<noteq> None"
    by (simp_all add: full_handle_def)
  have a1: "capability_answers (fake_env fleet3) (full_handle LIBCUDART) (world s0)
      = Some (3, ?rs, None, 2)"
    by code_simp
  have a2: "capability_answers (fake_env fleet3) (full_handle LIBNVIDIAML) (world s0)
      = Some (3, ?rs, None, 0)"
    by code_simp
  have a3: "capability_answers (fake_env fleet_empty) (full_handle LIBNVIDIAML) (world s0)
      = Some (0, [], None, 0)"
    by code_simp
  have a4: "capability_answers (fake_env fleet2_lost) (full_handle LIBCUDART) (world s0)
      = Some (2, [(8, 6)], Some (Handle_failed 1 3), 0)"
    by code_simp
  have f: "fold cc_rule ?rs (0, 0) = (7, 5)"
    and g: "fold cc_rule [(8, 6)] (0, 0) = (8, 6)"
    by code_simp+
  from cuda_compute_capability_fold [OF v(1) a1, of stale_cc]
  have "\<exists>resp' s'. cuda_compute_capability (fake_env fleet3) (full_handle LIBCUDART) stale_cc s0
        = Some (resp', s')
      \<and> fold cc_rule ?rs (0, 0) = (7, 5)
      \<and> cc_major resp' = 7 \<and> cc_minor resp' = 5 \<and> cc_err resp' = None"
    unfolding f by auto
  moreover
  from cuda_compute_capability_fold [OF v(2) a2, of stale_cc]
  have "\<exists>resp' s'. cuda_compute_capability (fake_env fleet3) (full_handle LIBNVIDIAML) stale_cc s0
        = Some (resp', s')
      \<and> cc_major resp' = 7 \<and> cc_minor resp' = 5 \<and> cc_err resp' = None"
    unfolding f by auto
  moreover
  from cuda_compute_capability_fold [OF v(2) a3, of stale_cc]
  have "\<exists>resp' s'. cuda_compute_capability (fake_env fleet_empty) (full_handle LIBNVIDIAML)
          stale_cc s0 = Some (resp', s')
      \<and> cc_major resp' = 0 \<and> cc_minor resp' = 0 \<and> cc_err resp' = None"
    by auto
  moreover
  from cuda_compute_capability_fold [OF v(1) a4, of stale_cc]
  have "\<exists>resp' s'. cuda_compute_capability (fake_env fleet2_lost) (full_handle LIBCUDART)
          stale_cc s0 = Some (resp', s')
      \<and> cc_major resp' = 8 \<and> cc_minor resp' = 6 \<and> cc_err resp' \<noteq> None"
    unfolding g by auto
  ultimately show ?thesis
    by blast
qed

text \<open>
  C6, amended. On a valid handle, when the active backend reports \<open>n\<close> devices with
  success and every per-device query succeeds, with the readings \<open>rs\<close>,
  \<open>cuda_check_vram\<close> returns err NULL, count \<open>n\<close>, and total and free equal to the sums
  of the \<open>n\<close> readings modulo \<open>2 ^ 64\<close> (the exact sums whenever those are below
  \<open>2 ^ 64\<close>), for both backends.
\<close>

theorem cuda_check_vram_sums:
  assumes valid: "handle h \<noteq> None"
    and ans: "memory_answers env h (world s) = Some (n, rs, None, w')"
  shows "\<exists>resp' s'. cuda_check_vram env h resp s = Some (resp', s') \<and> world s' = w'
       \<and> mi_err resp' = None \<and> mi_count resp' = n \<and> length rs = unat n
       \<and> unat (mi_total resp') = sum_list (map (unat \<circ> fst) rs) mod 2 ^ 64
       \<and> unat (mi_free resp') = sum_list (map (unat \<circ> snd) rs) mod 2 ^ 64
       \<and> (sum_list (map (unat \<circ> fst) rs) < 2 ^ 64 \<longrightarrow>
            unat (mi_total resp') = sum_list (map (unat \<circ> fst) rs))
       \<and> (sum_list (map (unat \<circ> snd) rs) < 2 ^ 64 \<longrightarrow>
            unat (mi_free resp') = sum_list (map (unat \<circ> snd) rs))"
proof -
  from cuda_check_vram_answers [OF valid ans, of resp] obtain resp' s' where
    run: "cuda_check_vram env h resp s = Some (resp', s')" "world s' = w'" and
    res: "mi_count resp' = n" "mi_err resp' = None" and
    sums: "mi_total resp' = sum_list (map fst rs)" "mi_free resp' = sum_list (map snd rs)"
    by auto
  from memory_answers_shape [OF ans] have len: "length rs = unat n"
    by simp
  from sums have
    t: "unat (mi_total resp') = sum_list (map (unat \<circ> fst) rs) mod 2 ^ 64" and
    f: "unat (mi_free resp') = sum_list (map (unat \<circ> snd) rs) mod 2 ^ 64"
    by (simp_all add: unat_sum_list comp_def)
  from t have "sum_list (map (unat \<circ> fst) rs) < 2 ^ 64 \<longrightarrow>
      unat (mi_total resp') = sum_list (map (unat \<circ> fst) rs)"
    by simp
  moreover from f have "sum_list (map (unat \<circ> snd) rs) < 2 ^ 64 \<longrightarrow>
      unat (mi_free resp') = sum_list (map (unat \<circ> snd) rs)"
    by simp
  ultimately show ?thesis
    using run res len t f by blast
qed

theorem cuda_check_vram_sums_witness:
  "(\<exists>resp' s'. cuda_check_vram (fake_env fleet2) (full_handle LIBCUDART) stale_mem s0
        = Some (resp', s')
      \<and> mi_err resp' = None \<and> mi_count resp' = 2
      \<and> unat (mi_total resp') = 12000000000 \<and> unat (mi_free resp') = 3000000000)
   \<and> (\<exists>resp' s'. cuda_check_vram (fake_env fleet2) (full_handle LIBNVIDIAML) stale_mem s0
        = Some (resp', s')
      \<and> mi_err resp' = None \<and> mi_count resp' = 2
      \<and> unat (mi_total resp') = 12000000000 \<and> unat (mi_free resp') = 3000000000)"
proof -
  let ?rs = "[(8000000000, 2000000000), (4000000000, 1000000000)] :: (64 word \<times> 64 word) list"
  have v: "handle (full_handle LIBCUDART) \<noteq> None" "handle (full_handle LIBNVIDIAML) \<noteq> None"
    by (simp_all add: full_handle_def)
  have a1: "memory_answers (fake_env fleet2) (full_handle LIBCUDART) (world s0)
      = Some (2, ?rs, None, 1)"
    by code_simp
  have a2: "memory_answers (fake_env fleet2) (full_handle LIBNVIDIAML) (world s0)
      = Some (2, ?rs, None, 0)"
    by code_simp
  have t: "sum_list (map (unat \<circ> fst) ?rs) mod 2 ^ 64 = 12000000000"
    and f: "sum_list (map (unat \<circ> snd) ?rs) mod 2 ^ 64 = 3000000000"
    by simp_all
  from cuda_check_vram_sums [OF v(1) a1, of stale_mem]
  have "\<exists>resp' s'. cuda_check_vram (fake_env fleet2) (full_handle LIBCUDART) stale_mem s0
        = Some (resp', s')
      \<and> mi_err resp' = None \<and> mi_count resp' = 2
      \<and> unat (mi_total resp') = 12000000000 \<and> unat (mi_free resp') = 3000000000"
    unfolding t f by blast
  moreover
  from cuda_check_vram_sums [OF v(2) a2, of stale_mem]
  have "\<exists>resp' s'. cuda_check_vram (fake_env fleet2) (full_handle LIBNVIDIAML) stale_mem s0
        = Some (resp', s')
      \<and> mi_err resp' = None \<and> mi_count resp' = 2
      \<and> unat (mi_total resp') = 12000000000 \<and> unat (mi_free resp') = 3000000000"
    unfolding t f by blast
  ultimately show ?thesis
    by blast
qed

text \<open>
  C6 as stated fails: two devices of the runtime backend report \<open>2 ^ 63\<close> bytes each,
  every query succeeds, the readings add up to \<open>2 ^ 64\<close>, and the total returned is 0.
\<close>

theorem cuda_check_vram_sum_wraps:
  "\<exists>resp' s'. cuda_check_vram (fake_env fleet2_huge) (full_handle LIBCUDART) stale_mem s0
       = Some (resp', s')
     \<and> first_is (count_reported 2) (new_events s0 s')
     \<and> \<not> list_ex step_failed (new_events s0 s')
     \<and> mi_err resp' = None
     \<and> sum_list (map (unat \<circ> fst) (mem_readings (new_events s0 s'))) = 2 ^ 64
     \<and> unat (mi_total resp') = 0"
  by (simp add: fake_run fleet2_def fleet2_huge_def cuda_check_vram_def vram_cudart_loop.simps)

text \<open>
  C7. For every invalid handle (library reference null, or backend tag unknown), both
  \<open>cuda_check_vram\<close> and \<open>cuda_compute_capability\<close> return a non-null err, and the state
  they return is the state they were given: no event was added to the trace, so no
  entry point of the handle's table was invoked.
\<close>

theorem invalid_handle_rejected:
  assumes "handle h = None \<or> lib_t h = LIBUNKNOWN"
  shows "(\<exists>r. cuda_check_vram env h mresp s = Some (r, s) \<and> mi_err r \<noteq> None)
       \<and> (\<exists>r. cuda_compute_capability env h cresp s = Some (r, s) \<and> cc_err r \<noteq> None)"
  using assms by (auto simp: cuda_check_vram_def cuda_compute_capability_def Let_def)

theorem invalid_handle_rejected_witness:
  "handle ((full_handle LIBCUDART)\<lparr>handle := None\<rparr>) = None
   \<and> (\<exists>r. cuda_check_vram (fake_env fleet2) ((full_handle LIBCUDART)\<lparr>handle := None\<rparr>)
             stale_mem s0 = Some (r, s0) \<and> mi_err r \<noteq> None)
   \<and> (\<exists>r. cuda_compute_capability (fake_env fleet2)
             ((full_handle LIBCUDART)\<lparr>handle := None\<rparr>) stale_cc s0 = Some (r, s0)
           \<and> cc_err r \<noteq> None)"
  using invalid_handle_rejected [of "(full_handle LIBCUDART)\<lparr>handle := None\<rparr>"
    "fake_env fleet2" stale_mem s0 stale_cc]
  by (simp add: full_handle_def)

text \<open>
  C8, amended. When the open step fails, \<open>cuda_init\<close> resolves nothing, leaves the handle
  invalid (tag unknown, library reference null) and returns as err the first 255
  characters of the message built from the path and the loader's diagnostic; err
  contains both as substrings whenever their lengths add up to at most 205, the room
  that the message's fixed text leaves in the buffer.
\<close>

theorem cuda_init_open_failure:
  assumes op: "LOAD_LIBRARY env path (world s) = (None, w1)"
    and de: "LOAD_ERR env w1 = (msg, w2)"
  shows "\<exists>resp' s'. cuda_init env path resp s = Some (resp', s')
     \<and> new_events s s' = [E_LOAD_LIBRARY path None, E_LOAD_ERR msg]
     \<and> ir_err resp' = Some (take 255
          (''Unable to load '' @ path @ '' library to query for Nvidia GPUs: '' @ msg))
     \<and> handle (ir_ch resp') = None \<and> lib_t (ir_ch resp') = LIBUNKNOWN
     \<and> (length path + length msg \<le> 205 \<longrightarrow>
          (\<exists>e. ir_err resp' = Some e \<and> sublist path e \<and> sublist msg e))"
proof -
  let ?text = "''Unable to load '' @ path @ '' library to query for Nvidia GPUs: '' @ msg"
  from open_failure_run [OF op de] obtain resp' s' where
    run: "cuda_init env path resp s = Some (resp', s')" and
    ev: "new_events s s' = [E_LOAD_LIBRARY path None, E_LOAD_ERR msg]" and
    err: "ir_err resp' = Some (take 255 ?text)" and
    inv: "handle (ir_ch resp') = None" "lib_t (ir_ch resp') = LIBUNKNOWN"
    by blast
  have "\<exists>e. ir_err resp' = Some e \<and> sublist path e \<and> sublist msg e"
    if fits: "length path + length msg \<le> 205"
  proof -
    from fits have "length ?text \<le> 255"
      by simp
    then have "take 255 ?text = ?text"
      by simp
    with err have "ir_err resp' = Some ?text"
      by simp
    moreover have "sublist path ?text"
      by (rule sublist_appendI)
    moreover have "sublist msg ?text"
      using sublist_append_leftI [of msg "''Unable to load '' @ path
        @ '' library to query for Nvidia GPUs: ''"] by simp
    ultimately show ?thesis
      by blast
  qed
  with run ev err inv show ?thesis
    by blast
qed

theorem cuda_init_open_failure_witness:
  "\<exists>resp' s'. cuda_init (fake_env lib_absent) ''libcudart.so'' stale_init s0 = Some (resp', s')
     \<and> ir_err resp'
         = Some ''Unable to load libcudart.so library to query for Nvidia GPUs: no such file''
     \<and> handle (ir_ch resp') = None \<and> lib_t (ir_ch resp') = LIBUNKNOWN
     \<and> (\<exists>e. ir_err resp' = Some e \<and> sublist ''libcudart.so'' e \<and> sublist ''no such file'' e)"
proof -
  have op: "LOAD_LIBRARY (fake_env lib_absent) ''libcudart.so'' (world s0) = (None, 0)"
    and de: "LOAD_ERR (fake_env lib_absent) 0 = (''no such file'', 0)"
    by (simp_all add: fake_env_def lib_absent_def s0_def)
  from cuda_init_open_failure [OF op de, of stale_init] show ?thesis
    by auto
qed

text \<open>
  C8 as stated fails: with a path of 256 characters the message is cut after 255, and err
  contains neither the path nor the loader's diagnostic.
\<close>

theorem cuda_init_open_failure_truncated:
  "\<exists>resp' s' e. cuda_init (fake_env lib_absent) (replicate 256 (CHR ''a'')) stale_init s0
       = Some (resp', s')
     \<and> ir_err resp' = Some e
     \<and> \<not> sublist (replicate 256 (CHR ''a'')) e
     \<and> \<not> sublist (fk_dlerror lib_absent) e"
proof -
  let ?path = "replicate 256 (CHR ''a'')"
  let ?e = "''Unable to load '' @ replicate 240 (CHR ''a'')"
  have op: "LOAD_LIBRARY (fake_env lib_absent) ?path (world s0) = (None, 0)"
    and de: "LOAD_ERR (fake_env lib_absent) 0 = (''no such file'', 0)"
    by (simp_all add: fake_env_def lib_absent_def s0_def)
  from open_failure_run [OF op de, of stale_init] obtain resp' s' where
    run: "cuda_init (fake_env lib_absent) ?path stale_init s0 = Some (resp', s')" and
    err: "ir_err resp' = Some (take 255
          (''Unable to load '' @ ?path @ '' library to query for Nvidia GPUs: ''
             @ ''no such file''))"
    by blast
  from err have e: "ir_err resp' = Some ?e"
    by simp
  have "\<not> sublist ?path ?e"
    using sublist_length_le [of ?path ?e] by auto
  moreover have "\<not> sublist ''no such file'' ?e"
    using set_mono_sublist [of "''no such file''" ?e] by auto
  ultimately show ?thesis
    using run e by (auto simp: lib_absent_def)
qed

text \<open>
  C9. Each public operation sets err to NULL first. What it returns, and the calls it
  makes, do not depend on the err field of the result struct it is handed; and when the
  call succeeds (for \<open>cuda_init\<close>: the library opens and the runtime vocabulary
  activates; for the queries: the backend reports its count and every device answers),
  it returns with err NULL whatever err the struct held on entry.
\<close>

theorem stale_err_cleared:
  "(cuda_init env path (iresp\<lparr>ir_err := ei\<rparr>) s = cuda_init env path iresp s
    \<and> cuda_check_vram env h (mresp\<lparr>mi_err := em\<rparr>) s = cuda_check_vram env h mresp s
    \<and> cuda_compute_capability env h (cresp\<lparr>cc_err := ec\<rparr>) s
        = cuda_compute_capability env h cresp s)
   \<and> (runtime_activation env path (ir_ch iresp) (world s) = Some (ch, wi) \<longrightarrow>
        (\<exists>r s'. cuda_init env path (iresp\<lparr>ir_err := ei\<rparr>) s = Some (r, s')
           \<and> ir_err r = None))
   \<and> (handle h \<noteq> None \<and> memory_answers env h (world s) = Some (n, rs, None, wm) \<longrightarrow>
        (\<exists>r s'. cuda_check_vram env h (mresp\<lparr>mi_err := em\<rparr>) s = Some (r, s')
           \<and> mi_err r = None))
   \<and> (handle h \<noteq> None \<and> capability_answers env h (world s) = Some (m, cs, None, wc) \<longrightarrow>
        (\<exists>r s'. cuda_compute_capability env h (cresp\<lparr>cc_err := ec\<rparr>) s = Some (r, s')
           \<and> cc_err r = None))"
proof -
  have indep: "cuda_init env path (iresp\<lparr>ir_err := ei\<rparr>) s = cuda_init env path iresp s
    \<and> cuda_check_vram env h (mresp\<lparr>mi_err := em\<rparr>) s = cuda_check_vram env h mresp s
    \<and> cuda_compute_capability env h (cresp\<lparr>cc_err := ec\<rparr>) s
        = cuda_compute_capability env h cresp s"
    by (simp add: cuda_init_def cuda_check_vram_def cuda_compute_capability_def)
  have init: "\<exists>r s'. cuda_init env path (iresp\<lparr>ir_err := ei\<rparr>) s = Some (r, s')
      \<and> ir_err r = None"
    if "runtime_activation env path (ir_ch iresp) (world s) = Some (ch, wi)"
  proof -
    from that have "runtime_activation env path (ir_ch (iresp\<lparr>ir_err := ei\<rparr>)) (world s)
        = Some (ch, wi)"
      by simp
    from cuda_init_answers [OF this] show ?thesis
      by blast
  qed
  have mem: "\<exists>r s'. cuda_check_vram env h (mresp\<lparr>mi_err := em\<rparr>) s = Some (r, s')
      \<and> mi_err r = None"
    if "handle h \<noteq> None" "memory_answers env h (world s) = Some (n, rs, None, wm)"
    using cuda_check_vram_answers [OF that, of "mresp\<lparr>mi_err := em\<rparr>"] by auto
  have cap: "\<exists>r s'. cuda_compute_capability env h (cresp\<lparr>cc_err := ec\<rparr>) s = Some (r, s')
      \<and> cc_err r = None"
    if "handle h \<noteq> None" "capability_answers env h (world s) = Some (m, cs, None, wc)"
    using cuda_compute_capability_answers [OF that, of "cresp\<lparr>cc_err := ec\<rparr>"] by auto
  from indep init mem cap show ?thesis
    by (intro conjI impI) simp_all
qed

theorem stale_err_cleared_witness:
  "(\<exists>r s'. cuda_init (fake_env fleet2) ''libcudart.so'' stale_init s0 = Some (r, s')
      \<and> ir_err stale_init = Some ''stale'' \<and> ir_err r = None)
   \<and> (\<exists>r s'. cuda_check_vram (fake_env fleet2) (full_handle LIBCUDART) stale_mem s0
          = Some (r, s')
      \<and> mi_err stale_mem = Some ''stale'' \<and> mi_err r = None)
   \<and> (\<exists>r s'. cuda_compute_capability (fake_env fleet2) (full_handle LIBNVIDIAML) stale_cc s0
          = Some (r, s')
      \<and> cc_err stale_cc = Some ''stale'' \<and> cc_err r = None)"
proof -
  have "runtime_activation (fake_env fleet2) ''libcudart.so'' (ir_ch stale_init) (world s0)
      \<noteq> None"
    by code_simp
  then obtain ch wi where
    act: "runtime_activation (fake_env fleet2) ''libcudart.so'' (ir_ch stale_init) (world s0)
            = Some (ch, wi)"
    by auto
  have mem: "memory_answers (fake_env fleet2) (full_handle LIBCUDART) (world s0)
      = Some (2, [(8000000000, 2000000000), (4000000000, 1000000000)], None, 1)"
    by code_simp
  have cap: "capability_answers (fake_env fleet2) (full_handle LIBNVIDIAML) (world s0)
      = Some (2, [(8, 6), (7, 5)], None, 0)"
    by code_simp
  have v: "handle (full_handle LIBCUDART) \<noteq> None" "handle (full_handle LIBNVIDIAML) \<noteq> None"
    by (simp_all add: full_handle_def)
  have st: "stale_init\<lparr>ir_err := Some ''stale''\<rparr> = stale_init"
    "stale_mem\<lparr>mi_err := Some ''stale''\<rparr> = stale_mem"
    "stale_cc\<lparr>cc_err := Some ''stale''\<rparr> = stale_cc"
    "ir_err stale_init = Some ''stale''" "mi_err stale_mem = Some ''stale''"
    "cc_err stale_cc = Some ''stale''"
    by (simp_all add: stale_init_def stale_mem_def stale_cc_def)
  from stale_err_cleared [where env = "fake_env fleet2" and path = "''libcudart.so''"
      and iresp = stale_init and ei = "Some ''stale''" and s = s0
      and h = "full_handle LIBCUDART" and mresp = stale_mem and em = "Some ''stale''"
      and cresp = stale_cc and ec = "Some ''stale''" and ch = ch and wi = wi and n = 2
      and rs = "[(8000000000, 2000000000), (4000000000, 1000000000)]" and wm = 1]
    act mem v(1)
  have i: "\<exists>r s'. cuda_init (fake_env fleet2) ''libcudart.so'' stale_init s0 = Some (r, s')
      \<and> ir_err r = None"
    and m: "\<exists>r s'. cuda_check_vram (fake_env fleet2) (full_handle LIBCUDART) stale_mem s0
          = Some (r, s') \<and> mi_err r = None"
    unfolding st by blast+
  from stale_err_cleared [where env = "fake_env fleet2" and s = s0
      and h = "full_handle LIBNVIDIAML" and cresp = stale_cc and ec = "Some ''stale''"
      and m = 2 and cs = "[(8, 6), (7, 5)]" and wc = 0]
    cap v(2)
  have c: "\<exists>r s'. cuda_compute_capability (fake_env fleet2) (full_handle LIBNVIDIAML) stale_cc s0
          = Some (r, s') \<and> cc_err r = None"
    unfolding st by blast
  from i m c st(4-6) show ?thesis
    by simp
qed



end
